theory Spec2Isabelle
  imports Complex_Main "HOL-Library.Sublist"
begin

section \<open>Python values shared by the model\<close>

text \<open>
  The source is \<^verbatim>\<open>farm/modeling/language_model.py\<close>. Python exceptions are values of
  \<open>py_error\<close>; a function that may raise returns \<open>py_error + 'a\<close> with \<open>Inl\<close> for the
  exception. Floating-point numbers are modelled as reals, so rounding is abstracted.
  Tensors are nested lists: \<open>real list list list\<close> is a batch of items, each a list of
  token vectors.
\<close>

datatype py_error =
    KeyError "string option"
  | IndexError
  | ValueError string
  | TypeError string
  | AttributeError string
  | AssertionError string
  | RuntimeError string
  | NotImplementedError
  | UnboundLocalError string
  | FileNotFoundError string
  | Exception string
  | LibraryError string

definition bind :: "py_error + 'a \<Rightarrow> ('a \<Rightarrow> py_error + 'b) \<Rightarrow> py_error + 'b" where
  "bind m f = (case m of Inl e \<Rightarrow> Inl e | Inr x \<Rightarrow> f x)"

section \<open>Extracting vectors: \<^verbatim>\<open>formatted_preds\<close> and \<^verbatim>\<open>_pool_tokens\<close>\<close>

text \<open>
  The attributes of the language model object that \<^verbatim>\<open>formatted_preds\<close> reads. Both are set
  from outside (by the Inferencer); \<open>None\<close> means that the attribute does not exist, which
  is what \<^verbatim>\<open>hasattr\<close> tests.
\<close>

record extraction =
  extraction_layer :: "int option"
  extraction_strategy :: "string option"

text \<open>\<^verbatim>\<open>sample.tokenized["tokens"]\<close> is the only part of a sample that is read.\<close>

record sample =
  tokens :: "string list"

text \<open>A prediction's vector is one vector, or one vector per token for \<^verbatim>\<open>per_token\<close>.\<close>

datatype ndarray = Vec1 "real list" | Mat2 "real list list"

record pred =
  pred_context :: "string list"
  pred_vec :: ndarray

text \<open>
  numpy broadcasting of one axis: an axis of the mask fits the axis of the token vectors
  when it has the same length or length one.
\<close>

definition broadcast_axis :: "nat \<Rightarrow> 'a list \<Rightarrow> py_error + 'a list" where
  "broadcast_axis n xs =
     (if length xs = n then Inr xs
      else if length xs = 1 then Inr (replicate n (xs ! 0))
      else Inl (ValueError ''could not broadcast input array''))"

fun sequence_err :: "(py_error + 'a) list \<Rightarrow> py_error + 'a list" where
  "sequence_err [] = Inr []"
| "sequence_err (m # ms) =
     (case m of Inl e \<Rightarrow> Inl e
      | Inr x \<Rightarrow> (case sequence_err ms of Inl e \<Rightarrow> Inl e | Inr xs \<Rightarrow> Inr (x # xs)))"

text \<open>
  \<^verbatim>\<open>ignore_mask_3d[:, :, :] = ignore_mask_2d[:, :, np.newaxis]\<close>: the two-dimensional mask
  is broadcast over the batch axis and, in each item, over the sequence axis.
\<close>

definition broadcast_mask :: "real list list list \<Rightarrow> bool list list \<Rightarrow> py_error + bool list list" where
  "broadcast_mask token_vecs ignore_mask_2d =
     bind (broadcast_axis (length token_vecs) ignore_mask_2d) (\<lambda>rows.
       sequence_err (map (\<lambda>(item, row). broadcast_axis (length item) row) (zip token_vecs rows)))"

text \<open>\<^verbatim>\<open>ignore_mask_2d[:, 0] = True\<close> fails when the mask has no column 0.\<close>

definition set_first_column :: "bool list list \<Rightarrow> py_error + bool list list" where
  "set_first_column m =
     (if \<exists>row \<in> set m. row = [] then Inl IndexError
      else Inr (map (\<lambda>row. row[0 := True]) m))"

text \<open>
  The reductions of a masked array along the sequence axis. A cell all of whose entries are
  masked has no defined value in the source (numpy leaves whatever its buffer holds); the
  model takes that value as the parameter \<open>fill\<close>.
\<close>

definition masked_mean :: "real \<Rightarrow> real list \<Rightarrow> real" where
  "masked_mean fill xs = (if xs = [] then fill else sum_list xs / real (length xs))"

definition masked_max :: "real \<Rightarrow> real list \<Rightarrow> real" where
  "masked_max fill xs = (if xs = [] then fill else fold max (tl xs) (hd xs))"

definition pool_item :: "(real list \<Rightarrow> real) \<Rightarrow> real list list \<Rightarrow> bool list \<Rightarrow> real list" where
  "pool_item agg item ignore =
     (let kept = map fst (filter (\<lambda>(v, m). \<not> m) (zip item ignore))
      in case item of [] \<Rightarrow> []
         | v # _ \<Rightarrow> map (\<lambda>k. agg (map (\<lambda>u. u ! k) kept)) [0..<length v])"

definition pool_tokens ::
  "real \<Rightarrow> real list list list \<Rightarrow> int list list option \<Rightarrow> string \<Rightarrow> bool \<Rightarrow> py_error + real list list" where
  "pool_tokens fill sequence_output padding_mask strategy ignore_first_token =
     (let token_vecs = sequence_output in
      case padding_mask of
        None \<Rightarrow> Inl (AttributeError ''cpu'')
      | Some pm \<Rightarrow>
          bind (if ignore_first_token
                then set_first_column (map (map (\<lambda>x. x = 0)) pm)
                else Inr (map (map (\<lambda>x. x = 0)) pm)) (\<lambda>ignore_mask_2d.
          bind (broadcast_mask token_vecs ignore_mask_2d) (\<lambda>ignore_mask_3d.
            if strategy = ''reduce_mean''
            then Inr (map (\<lambda>(item, ignore). pool_item (masked_mean fill) item ignore)
                        (zip token_vecs ignore_mask_3d))
            else if strategy = ''reduce_max''
            then Inr (map (\<lambda>(item, ignore). pool_item (masked_max fill) item ignore)
                        (zip token_vecs ignore_mask_3d))
            else Inl (UnboundLocalError ''pooled_vecs''))))"

text \<open>\<^verbatim>\<open>sequence_output[:, 0, :]\<close> fails when the sequence axis is empty.\<close>

definition first_token :: "real list list list \<Rightarrow> py_error + real list list" where
  "first_token sequence_output =
     (if \<exists>item \<in> set sequence_output. item = [] then Inl IndexError
      else Inr (map (\<lambda>item. item ! 0) sequence_output))"

definition make_preds :: "ndarray list \<Rightarrow> sample list \<Rightarrow> pred list" where
  "make_preds vecs samples =
     map (\<lambda>(v, s). \<lparr>pred_context = tokens s, pred_vec = v\<rparr>) (zip vecs samples)"

text \<open>
  \<^verbatim>\<open>logits[0]\<close> is the pair (sequence output, pooled output) of the forward pass; an empty
  \<open>logits\<close> makes the unpacking fail.
\<close>

definition formatted_preds ::
  "real \<Rightarrow> extraction \<Rightarrow> (real list list list \<times> real list list) list \<Rightarrow> sample list
     \<Rightarrow> bool \<Rightarrow> int list list option \<Rightarrow> py_error + pred list" where
  "formatted_preds fill self logits samples ignore_first_token padding_mask =
     (case (extraction_layer self, extraction_strategy self) of
        (Some layer, Some strategy) \<Rightarrow>
          (case logits of
             [] \<Rightarrow> Inl IndexError
           | (sequence_output, pooled_output) # _ \<Rightarrow>
               bind
                 (if strategy = ''pooled'' then
                    (if layer \<noteq> -1
                     then Inl (ValueError ''Pooled output only works for the last layer'')
                     else Inr (map Vec1 pooled_output))
                  else if strategy = ''per_token'' then Inr (map Mat2 sequence_output)
                  else if strategy = ''reduce_mean'' then
                    bind (pool_tokens fill sequence_output padding_mask strategy ignore_first_token)
                      (\<lambda>vs. Inr (map Vec1 vs))
                  else if strategy = ''reduce_max'' then
                    bind (pool_tokens fill sequence_output padding_mask strategy ignore_first_token)
                      (\<lambda>vs. Inr (map Vec1 vs))
                  else if strategy = ''cls_token'' then
                    bind (first_token sequence_output) (\<lambda>vs. Inr (map Vec1 vs))
                  else Inl NotImplementedError)
                 (\<lambda>vecs. Inr (make_preds vecs samples)))
      | _ \<Rightarrow> Inl (ValueError ''extraction_layer or extraction_strategy not specified for LM''))"

text \<open>
  The spec's words for the result of \<^verbatim>\<open>reduce_mean\<close>: the unweighted arithmetic mean of an
  item's token vectors across the sequence axis, one coordinate at a time.
\<close>

definition unweighted_mean :: "real list list \<Rightarrow> real list" where
  "unweighted_mean item =
     map (\<lambda>k. (\<Sum>u\<leftarrow>item. u ! k) / real (length item)) [0..<length (item ! 0)]"

section \<open>The forward pass of the adapters\<close>

text \<open>
  The wrapped transformers model is outside this file. What \<^verbatim>\<open>forward\<close> needs of it are the
  three places where the adapters keep the switch for hidden states, and the call of the
  model itself, which is the parameter \<open>call\<close> of the functions below: it receives the
  switches, the token ids, the segment ids (absent for DistilBERT) and the padding mask,
  and returns the model's output tuple or raises. The elements of the tuple are values of
  an arbitrary type \<open>'o\<close>.
\<close>

record transformer =
  encoder_output_hidden_states :: bool
  config_output_hidden_states :: bool
  model_output_hidden_states :: bool

record 'o adapter_self =
  model :: transformer
  pooler :: "('o \<Rightarrow> py_error + 'o) option"

type_synonym 'o model_call =
  "transformer \<Rightarrow> int list list \<Rightarrow> int list list option \<Rightarrow> int list list \<Rightarrow> py_error + 'o list"

datatype 'o forward_result = Pair2 'o 'o | Triple3 'o 'o 'o

definition tuple_get :: "'o list \<Rightarrow> nat \<Rightarrow> py_error + 'o" where
  "tuple_get t i = (if i < length t then Inr (t ! i) else Inl IndexError)"

definition apply_pooler :: "('o \<Rightarrow> py_error + 'o) option \<Rightarrow> 'o \<Rightarrow> py_error + 'o" where
  "apply_pooler p x =
     (case p of None \<Rightarrow> Inl (TypeError ''NoneType object is not callable'') | Some f \<Rightarrow> f x)"

definition Bert_forward ::
  "'o model_call \<Rightarrow> 'o adapter_self \<Rightarrow> int list list \<Rightarrow> int list list \<Rightarrow> int list list
     \<Rightarrow> py_error + 'o forward_result" where
  "Bert_forward call self input_ids segment_ids padding_mask =
     bind (call (model self) input_ids (Some segment_ids) padding_mask) (\<lambda>output_tuple.
       if encoder_output_hidden_states (model self) then
         bind (tuple_get output_tuple 0) (\<lambda>sequence_output.
         bind (tuple_get output_tuple 1) (\<lambda>pooled_output.
         bind (tuple_get output_tuple 2) (\<lambda>all_hidden_states.
           Inr (Triple3 sequence_output pooled_output all_hidden_states))))
       else
         bind (tuple_get output_tuple 0) (\<lambda>sequence_output.
         bind (tuple_get output_tuple 1) (\<lambda>pooled_output.
           Inr (Pair2 sequence_output pooled_output))))"

definition Bert_enable_hidden_states_output :: "'o adapter_self \<Rightarrow> 'o adapter_self" where
  "Bert_enable_hidden_states_output self =
     self\<lparr>model := (model self)\<lparr>encoder_output_hidden_states := True\<rparr>\<rparr>"

definition Albert_forward ::
  "'o model_call \<Rightarrow> 'o adapter_self \<Rightarrow> int list list \<Rightarrow> int list list \<Rightarrow> int list list
     \<Rightarrow> py_error + 'o forward_result" where
  "Albert_forward call self input_ids segment_ids padding_mask =
     bind (call (model self) input_ids (Some segment_ids) padding_mask) (\<lambda>output_tuple.
       if encoder_output_hidden_states (model self) then
         bind (tuple_get output_tuple 0) (\<lambda>sequence_output.
         bind (tuple_get output_tuple 1) (\<lambda>pooled_output.
         bind (tuple_get output_tuple 2) (\<lambda>all_hidden_states.
           Inr (Triple3 sequence_output pooled_output all_hidden_states))))
       else
         bind (tuple_get output_tuple 0) (\<lambda>sequence_output.
         bind (tuple_get output_tuple 1) (\<lambda>pooled_output.
           Inr (Pair2 sequence_output pooled_output))))"

definition Albert_enable_hidden_states_output :: "'o adapter_self \<Rightarrow> 'o adapter_self" where
  "Albert_enable_hidden_states_output self =
     self\<lparr>model := (model self)\<lparr>encoder_output_hidden_states := True\<rparr>\<rparr>"

definition Roberta_forward ::
  "'o model_call \<Rightarrow> 'o adapter_self \<Rightarrow> int list list \<Rightarrow> int list list \<Rightarrow> int list list
     \<Rightarrow> py_error + 'o forward_result" where
  "Roberta_forward call self input_ids segment_ids padding_mask =
     bind (call (model self) input_ids (Some segment_ids) padding_mask) (\<lambda>output_tuple.
       if encoder_output_hidden_states (model self) then
         bind (tuple_get output_tuple 0) (\<lambda>sequence_output.
         bind (tuple_get output_tuple 1) (\<lambda>pooled_output.
         bind (tuple_get output_tuple 2) (\<lambda>all_hidden_states.
           Inr (Triple3 sequence_output pooled_output all_hidden_states))))
       else
         bind (tuple_get output_tuple 0) (\<lambda>sequence_output.
         bind (tuple_get output_tuple 1) (\<lambda>pooled_output.
           Inr (Pair2 sequence_output pooled_output))))"

definition Roberta_enable_hidden_states_output :: "'o adapter_self \<Rightarrow> 'o adapter_self" where
  "Roberta_enable_hidden_states_output self =
     self\<lparr>model := (model self)\<lparr>encoder_output_hidden_states := True\<rparr>\<rparr>"

definition XLMRoberta_forward ::
  "'o model_call \<Rightarrow> 'o adapter_self \<Rightarrow> int list list \<Rightarrow> int list list \<Rightarrow> int list list
     \<Rightarrow> py_error + 'o forward_result" where
  "XLMRoberta_forward call self input_ids segment_ids padding_mask =
     bind (call (model self) input_ids (Some segment_ids) padding_mask) (\<lambda>output_tuple.
       if encoder_output_hidden_states (model self) then
         bind (tuple_get output_tuple 0) (\<lambda>sequence_output.
         bind (tuple_get output_tuple 1) (\<lambda>pooled_output.
         bind (tuple_get output_tuple 2) (\<lambda>all_hidden_states.
           Inr (Triple3 sequence_output pooled_output all_hidden_states))))
       else
         bind (tuple_get output_tuple 0) (\<lambda>sequence_output.
         bind (tuple_get output_tuple 1) (\<lambda>pooled_output.
           Inr (Pair2 sequence_output pooled_output))))"

definition XLMRoberta_enable_hidden_states_output :: "'o adapter_self \<Rightarrow> 'o adapter_self" where
  "XLMRoberta_enable_hidden_states_output self =
     self\<lparr>model := (model self)\<lparr>encoder_output_hidden_states := True\<rparr>\<rparr>"

text \<open>
  DistilBERT takes no segment ids and computes the pooled output with its own pooler. In
  the branch for enabled hidden states the source unpacks \<^verbatim>\<open>output_tuple[1]\<close> into
  \<^verbatim>\<open>all_hidden_states\<close> and then returns the pair all the same.
\<close>

definition DistilBert_forward ::
  "'o model_call \<Rightarrow> 'o adapter_self \<Rightarrow> int list list \<Rightarrow> int list list
     \<Rightarrow> py_error + 'o forward_result" where
  "DistilBert_forward call self input_ids padding_mask =
     bind (call (model self) input_ids None padding_mask) (\<lambda>output_tuple.
     bind (tuple_get output_tuple 0) (\<lambda>first.
     bind (apply_pooler (pooler self) first) (\<lambda>pooled_output.
       if config_output_hidden_states (model self) then
         bind (tuple_get output_tuple 0) (\<lambda>sequence_output.
         bind (tuple_get output_tuple 1) (\<lambda>all_hidden_states.
           Inr (Pair2 sequence_output pooled_output)))
       else
         bind (tuple_get output_tuple 0) (\<lambda>sequence_output.
           Inr (Pair2 sequence_output pooled_output)))))"

definition DistilBert_enable_hidden_states_output :: "'o adapter_self \<Rightarrow> 'o adapter_self" where
  "DistilBert_enable_hidden_states_output self =
     self\<lparr>model := (model self)\<lparr>config_output_hidden_states := True\<rparr>\<rparr>"

definition XLNet_forward ::
  "'o model_call \<Rightarrow> 'o adapter_self \<Rightarrow> int list list \<Rightarrow> int list list \<Rightarrow> int list list
     \<Rightarrow> py_error + 'o forward_result" where
  "XLNet_forward call self input_ids segment_ids padding_mask =
     bind (call (model self) input_ids (Some segment_ids) padding_mask) (\<lambda>output_tuple.
     bind (tuple_get output_tuple 0) (\<lambda>first.
     bind (apply_pooler (pooler self) first) (\<lambda>pooled_output.
       if model_output_hidden_states (model self) then
         bind (tuple_get output_tuple 0) (\<lambda>sequence_output.
         bind (tuple_get output_tuple 1) (\<lambda>all_hidden_states.
           Inr (Triple3 sequence_output pooled_output all_hidden_states)))
       else
         bind (tuple_get output_tuple 0) (\<lambda>sequence_output.
           Inr (Pair2 sequence_output pooled_output)))))"

definition XLNet_enable_hidden_states_output :: "'o adapter_self \<Rightarrow> 'o adapter_self" where
  "XLNet_enable_hidden_states_output self =
     self\<lparr>model := (model self)\<lparr>model_output_hidden_states := True\<rparr>\<rparr>"

section \<open>The word-embedding model\<close>

subsection \<open>Strings\<close>

text \<open>
  Strings are lists of characters with code points below 256. \<^verbatim>\<open>str.strip()\<close> removes the
  characters that Python counts as white space; among the code points below 256 these are
  9 to 13, 28 to 32, 133 and 160.
\<close>

definition isspace :: "char \<Rightarrow> bool" where
  "isspace c =
     (let n = (of_char c :: nat)
      in (9 \<le> n \<and> n \<le> 13) \<or> (28 \<le> n \<and> n \<le> 32) \<or> n = 133 \<or> n = 160)"

definition strip :: "string \<Rightarrow> string" where
  "strip s = rev (dropWhile isspace (rev (dropWhile isspace s)))"

text \<open>\<^verbatim>\<open>line.split(' ', 1)\<close>: at most one split, at the first blank.\<close>

definition split_first_blank :: "string \<Rightarrow> string list" where
  "split_first_blank s =
     (if CHR '' '' \<in> set s
      then [takeWhile (\<lambda>c. c \<noteq> CHR '' '') s, tl (dropWhile (\<lambda>c. c \<noteq> CHR '' '') s)]
      else [s])"

subsection \<open>Reading the table of vectors\<close>

datatype log_record = Debug string | Info string | Warning string

text \<open>
  The local variables of \<^verbatim>\<open>load_vectors\<close>, and the records handed to the logger so far.
\<close>

record load_state =
  words_transformed :: "string set"
  repetitions :: nat
  embeddings_dimensionality :: "nat option"
  vectors :: "string \<rightharpoonup> real list"
  logged :: "log_record list"

definition initial_load_state :: load_state where
  "initial_load_state =
     \<lparr>words_transformed = {}, repetitions = 0, embeddings_dimensionality = None,
      vectors = Map.empty, logged = []\<rparr>"

text \<open>
  \<^verbatim>\<open>if len(np_vec) == embeddings_dimensionality: vectors[word] = np_vec; ...\<close>
\<close>

definition store_vector :: "load_state \<Rightarrow> string \<Rightarrow> real list \<Rightarrow> load_state" where
  "store_vector st word np_vec =
     (if Some (length np_vec) = embeddings_dimensionality st
      then st\<lparr>vectors := (vectors st)(word \<mapsto> np_vec),
              words_transformed := insert word (words_transformed st)\<rparr>
      else st)"

text \<open>
  One turn of the loop over the lines. \<open>fromstring\<close> stands for \<^verbatim>\<open>np.fromstring(vec, sep=' ')\<close>,
  which is outside this file; \<open>None\<close> means that it raised, which the bare \<^verbatim>\<open>except\<close>
  turns into a debug record. The unpacking of \<^verbatim>\<open>line.split(' ', 1)\<close> into two names is
  outside the \<^verbatim>\<open>try\<close>: a line without a blank raises \<^verbatim>\<open>ValueError\<close>.
\<close>

definition load_line :: "(string \<Rightarrow> real list option) \<Rightarrow> load_state \<Rightarrow> string \<Rightarrow> py_error + load_state" where
  "load_line fromstring st line0 =
     (let line = strip line0 in
      if line = [] then Inr st
      else
        (case split_first_blank line of
           [word, vec] \<Rightarrow>
             if word \<notin> words_transformed st then
               (case fromstring vec of
                  None \<Rightarrow>
                    Inr (st\<lparr>logged := logged st @
                           [Debug (''Embeddings reader: Could not convert line: '' @ line)]\<rparr>)
                | Some np_vec \<Rightarrow>
                    (case embeddings_dimensionality st of
                       None \<Rightarrow>
                         if length np_vec < 4
                         then Inr (st\<lparr>logged := logged st @ [Info ''Skipping header'']\<rparr>)
                         else Inr (store_vector
                                     (st\<lparr>embeddings_dimensionality := Some (length np_vec)\<rparr>)
                                     word np_vec)
                     | Some d \<Rightarrow> Inr (store_vector st word np_vec)))
             else Inr (st\<lparr>repetitions := repetitions st + 1\<rparr>)
         | _ \<Rightarrow> Inl (ValueError ''not enough values to unpack (expected 2, got 1)'')))"

fun load_lines :: "(string \<Rightarrow> real list option) \<Rightarrow> load_state \<Rightarrow> string list \<Rightarrow> py_error + load_state" where
  "load_lines fromstring st [] = Inr st"
| "load_lines fromstring st (line # f) =
     (case load_line fromstring st line of
        Inl e \<Rightarrow> Inl e
      | Inr st' \<Rightarrow> load_lines fromstring st' f)"

text \<open>
  The second loop, over \<^verbatim>\<open>enumerate(self.vocab)\<close>. The vocabulary is an ordered dictionary
  from tokens to indices, modelled by the list of its items in their order; the loop walks
  the keys and numbers them itself. \<^verbatim>\<open>embeddings[i,:] = torch.tensor(current)\<close> needs a
  vector of the row's length, or of length one, which is broadcast.
\<close>

definition enumerate_keys :: "(string \<times> nat) list \<Rightarrow> (nat \<times> string) list" where
  "enumerate_keys vocab = zip [0..<length vocab] (map fst vocab)"

fun assign_rows ::
  "nat \<Rightarrow> (string \<rightharpoonup> real list) \<Rightarrow> real list list \<Rightarrow> log_record list \<Rightarrow> (nat \<times> string) list
     \<Rightarrow> py_error + real list list \<times> log_record list" where
  "assign_rows d vecs embeddings lg [] = Inr (embeddings, lg)"
| "assign_rows d vecs embeddings lg ((i, w) # rest) =
     (let current = (case vecs w of None \<Rightarrow> replicate d 0 | Some v \<Rightarrow> v);
          lg' = (if vecs w = None
                 then lg @ [Warning (''Could not load pretrained embedding for word: '' @ w)]
                 else lg)
      in if length current = d then assign_rows d vecs (embeddings[i := current]) lg' rest
         else if length current = 1
         then assign_rows d vecs (embeddings[i := replicate d (current ! 0)]) lg' rest
         else Inl (RuntimeError ''shape mismatch''))"

text \<open>
  \<^verbatim>\<open>load_vectors\<close> on the lines that \<^verbatim>\<open>readlines()\<close> returned. It returns the table of
  embeddings, here together with the logger's records. When no line has set the
  dimensionality, \<^verbatim>\<open>torch.zeros((len(self.vocab), None))\<close> raises \<^verbatim>\<open>TypeError\<close>.
\<close>

definition load_vectors ::
  "(string \<Rightarrow> real list option) \<Rightarrow> (string \<times> nat) list \<Rightarrow> string list
     \<Rightarrow> py_error + real list list \<times> log_record list" where
  "load_vectors fromstring vocab f =
     bind (load_lines fromstring initial_load_state f) (\<lambda>st.
       case embeddings_dimensionality st of
         None \<Rightarrow> Inl (TypeError ''zeros(): argument size must be tuple of ints'')
       | Some d \<Rightarrow>
           assign_rows d (vectors st) (replicate (length vocab) (replicate d 0)) (logged st)
             (enumerate_keys vocab))"

text \<open>
  The spec's words for the second loop: every vocabulary entry receives a vector, the
  loaded one or else a zero vector, and each entry without a loaded vector is warned about.
\<close>

definition row_for :: "nat \<Rightarrow> (string \<rightharpoonup> real list) \<Rightarrow> string \<Rightarrow> real list" where
  "row_for d vecs w = (case vecs w of None \<Rightarrow> replicate d 0 | Some v \<Rightarrow> v)"

definition warnings_for :: "(string \<rightharpoonup> real list) \<Rightarrow> string list \<Rightarrow> log_record list" where
  "warnings_for vecs ws =
     map (\<lambda>w. Warning (''Could not load pretrained embedding for word: '' @ w))
       (filter (\<lambda>w. vecs w = None) ws)"

text \<open>The invariant of the first loop: every stored vector has the established length.\<close>

definition vectors_have_length :: "load_state \<Rightarrow> bool" where
  "vectors_have_length st =
     (case embeddings_dimensionality st of
        None \<Rightarrow> vectors st = Map.empty
      | Some d \<Rightarrow> (\<forall>w v. vectors st w = Some v \<longrightarrow> length v = d))"

text \<open>
  A parser of blank-separated unsigned decimal numbers, to run the loader on concrete
  tables. It takes the place of \<^verbatim>\<open>np.fromstring\<close> there; the general theorems hold for
  every parser.
\<close>

definition digit_of :: "char \<Rightarrow> nat option" where
  "digit_of c =
     (let n = (of_char c :: nat) in if 48 \<le> n \<and> n \<le> 57 then Some (n - 48) else None)"

fun number_of :: "nat \<Rightarrow> string \<Rightarrow> nat option" where
  "number_of acc [] = Some acc"
| "number_of acc (c # cs) =
     (case digit_of c of None \<Rightarrow> None | Some k \<Rightarrow> number_of (10 * acc + k) cs)"

fun fields :: "string \<Rightarrow> string \<Rightarrow> string list" where
  "fields cur [] = (if cur = [] then [] else [rev cur])"
| "fields cur (c # cs) =
     (if c = CHR '' '' then (if cur = [] then fields [] cs else rev cur # fields [] cs)
      else fields (c # cur) cs)"

definition decimal_fromstring :: "string \<Rightarrow> real list option" where
  "decimal_fromstring s = map_option (map real) (those (map (number_of 0) (fields [] s)))"

subsection \<open>Files\<close>

text \<open>
  A file system maps a path to the content of the file there: a JSON object, the weights
  of a model (a value of an arbitrary type \<open>'w\<close>, written and read by the library), or
  the lines of a text file, each with its line end. A JSON object, like the attributes of
  a configuration object, is a map from keys to values.
\<close>

datatype jval = JNull | JBool bool | JInt int | JStr string

type_synonym attrs = "string \<rightharpoonup> jval"

datatype 'w file_content = JsonFile attrs | WeightsFile 'w | TextFile "string list"

type_synonym 'w filesystem = "string \<rightharpoonup> 'w file_content"

definition newline :: char where
  "newline = CHR 0x0A"

text \<open>
  \<^verbatim>\<open>Path(d) / n\<close>: an absolute \<open>n\<close> replaces \<open>d\<close>. The normalisation of repeated
  separators by \<^verbatim>\<open>pathlib\<close> is not modelled.
\<close>

definition path_join :: "string \<Rightarrow> string \<Rightarrow> string" where
  "path_join d n = (case n of c # _ \<Rightarrow> (if c = CHR ''/'' then n else d @ ''/'' @ n) | [] \<Rightarrow> d)"

definition json_load :: "'w filesystem \<Rightarrow> string \<Rightarrow> py_error + attrs" where
  "json_load fs p =
     (case fs p of
        None \<Rightarrow> Inl (FileNotFoundError p)
      | Some (JsonFile a) \<Rightarrow> Inr a
      | Some _ \<Rightarrow> Inl (ValueError ''JSONDecodeError''))"

definition readlines :: "'w filesystem \<Rightarrow> string \<Rightarrow> py_error + string list" where
  "readlines fs p =
     (case fs p of
        None \<Rightarrow> Inl (FileNotFoundError p)
      | Some (TextFile ls) \<Rightarrow> Inr ls
      | Some _ \<Rightarrow> Inl (ValueError ''UnicodeDecodeError''))"

text \<open>
  \<^verbatim>\<open>load_vocab\<close> belongs to the transformers library. After its source: the tokens are
  the lines of the file without their line ends, each assigned its line number in an
  ordered dictionary, where a repeated token keeps its first place.
\<close>

fun dict_set :: "('k \<times> 'v) list \<Rightarrow> 'k \<Rightarrow> 'v \<Rightarrow> ('k \<times> 'v) list" where
  "dict_set [] k v = [(k, v)]"
| "dict_set ((k', v') # kvs) k v =
     (if k' = k then (k, v) # kvs else (k', v') # dict_set kvs k v)"

definition rstrip_newline :: "string \<Rightarrow> string" where
  "rstrip_newline s = rev (dropWhile (\<lambda>c. c = newline) (rev s))"

definition load_vocab :: "'w filesystem \<Rightarrow> string \<Rightarrow> py_error + (string \<times> nat) list" where
  "load_vocab fs vocab_file =
     bind (readlines fs vocab_file) (\<lambda>tokens.
       Inr (fold (\<lambda>(index, token) vocab. dict_set vocab (rstrip_newline token) index)
              (zip [0..<length tokens] tokens) []))"

subsection \<open>\<^verbatim>\<open>EmbeddingConfig\<close> and \<^verbatim>\<open>EmbeddingModel\<close>\<close>

text \<open>
  \<^verbatim>\<open>EmbeddingConfig(**dict(config))\<close> keeps six attributes, \<^verbatim>\<open>None\<close> where the dictionary
  has no entry, and drops every other key.
\<close>

definition EmbeddingConfig :: "attrs \<Rightarrow> attrs" where
  "EmbeddingConfig config =
     (\<lambda>k. if k \<in> {''name'', ''embeddings_filename'', ''vocab_filename'', ''vocab_size'',
                    ''hidden_size'', ''language''}
          then Some (case config k of None \<Rightarrow> JNull | Some v \<Rightarrow> v)
          else None)"

record embedding_model =
  em_config :: attrs
  em_vocab :: "(string \<times> nat) list"
  em_embeddings :: "real list list"
  unk_idx :: nat

text \<open>
  \<^verbatim>\<open>EmbeddingModel.__init__\<close>. The vocabulary and the vectors are loaded first, the
  assertion about \<^verbatim>\<open>[UNK]\<close> comes after them. The records of the logger are returned with
  the model.
\<close>

definition EmbeddingModel_init ::
  "(string \<Rightarrow> real list option) \<Rightarrow> 'w filesystem \<Rightarrow> string \<Rightarrow> attrs \<Rightarrow> string
     \<Rightarrow> py_error + embedding_model \<times> log_record list" where
  "EmbeddingModel_init fromstring fs path config vocab_filename =
     bind (load_vocab fs vocab_filename) (\<lambda>vocab.
     bind (readlines fs path) (\<lambda>f.
     bind (load_vectors fromstring vocab f) (\<lambda>(embeddings, lg).
       case map_of vocab ''[UNK]'' of
         None \<Rightarrow> Inl (AssertionError ''No [UNK] symbol in Wordembeddingmodel! Aborting'')
       | Some i \<Rightarrow>
           Inr (\<lparr>em_config = EmbeddingConfig config, em_vocab = vocab,
                 em_embeddings = embeddings, unk_idx = i\<rparr>, lg))))"

text \<open>
  \<^verbatim>\<open>EmbeddingModel.save\<close> writes one line per vocabulary entry and row of the table.
  \<open>fmt\<close> stands for the formatting \<^verbatim>\<open>"%.6f" % v\<close>.
\<close>

fun join :: "string \<Rightarrow> string list \<Rightarrow> string" where
  "join sep [] = []"
| "join sep [x] = x"
| "join sep (x # y # zs) = x @ sep @ join sep (y # zs)"

definition EmbeddingModel_save ::
  "(real \<Rightarrow> string) \<Rightarrow> embedding_model \<Rightarrow> string \<Rightarrow> 'w filesystem \<Rightarrow> py_error + 'w filesystem" where
  "EmbeddingModel_save fmt self save_dir fs =
     (case em_config self ''embeddings_filename'' of
        Some (JStr embeddings_filename) \<Rightarrow>
          Inr (fs(path_join save_dir embeddings_filename \<mapsto>
                 TextFile (map (\<lambda>((w, i), vec). w @ '' '' @ join '' '' (map fmt vec) @ [newline])
                            (zip (em_vocab self) (em_embeddings self)))))
      | _ \<Rightarrow> Inl (TypeError ''unsupported operand type(s) for /''))"

text \<open>\<^verbatim>\<open>EmbeddingModel.resize_token_embeddings\<close> ignores its argument.\<close>

definition EmbeddingModel_num_embeddings :: "embedding_model \<Rightarrow> int" where
  "EmbeddingModel_num_embeddings self = int (length (em_vocab self))"

section \<open>Loading and saving language models\<close>

subsection \<open>The adapter classes and the library\<close>

text \<open>
  The subclasses of \<^verbatim>\<open>LanguageModel\<close>, in the order of their definition.
  \<^verbatim>\<open>__init_subclass__\<close> enters each under its class name into \<^verbatim>\<open>LanguageModel.subclasses\<close>.
\<close>

datatype adapter = Bert | Albert | Roberta | XLMRoberta | DistilBert | XLNet | WordEmbedding_LM

fun class_name :: "adapter \<Rightarrow> string" where
  "class_name Bert = ''Bert''"
| "class_name Albert = ''Albert''"
| "class_name Roberta = ''Roberta''"
| "class_name XLMRoberta = ''XLMRoberta''"
| "class_name DistilBert = ''DistilBert''"
| "class_name XLNet = ''XLNet''"
| "class_name WordEmbedding_LM = ''WordEmbedding_LM''"

definition subclasses :: "string \<rightharpoonup> adapter" where
  "subclasses =
     map_of (map (\<lambda>cls. (class_name cls, cls))
               [Bert, Albert, Roberta, XLMRoberta, DistilBert, XLNet, WordEmbedding_LM])"

text \<open>
  What the code calls in the transformers, torch and numpy libraries, as parameters:
  \<^item> \<open>hub\<close>: \<^verbatim>\<open>XModel.from_pretrained(name)\<close> for a name or a directory in the library's own
    format; it yields the configuration and the weights of the model, or raises;
  \<^item> \<open>config_defaults\<close>: the attributes that a configuration class sets by itself;
  \<^item> \<open>load_state_dict\<close>: the reading of saved weights into a model of a class built from
    a configuration, in \<^verbatim>\<open>XModel.from_pretrained(file, config=config)\<close>;
  \<^item> \<open>resize_token_embeddings\<close> and \<open>num_embeddings\<close> of a wrapped model;
  \<^item> \<open>np_fromstring\<close> and \<open>format_6f\<close> (\<^verbatim>\<open>"%.6f" % v\<close>);
  \<^item> \<open>fasttext_installed\<close>: whether \<^verbatim>\<open>import fasttext\<close> succeeds.
\<close>

record 'w library =
  hub :: "adapter \<Rightarrow> string \<Rightarrow> py_error + attrs \<times> 'w"
  config_defaults :: "adapter \<Rightarrow> attrs"
  load_state_dict :: "adapter \<Rightarrow> attrs \<Rightarrow> 'w \<Rightarrow> py_error + 'w"
  resize_token_embeddings :: "int \<Rightarrow> attrs \<times> 'w \<Rightarrow> attrs \<times> 'w"
  num_embeddings :: "attrs \<times> 'w \<Rightarrow> int"
  np_fromstring :: "string \<Rightarrow> real list option"
  format_6f :: "real \<Rightarrow> string"
  fasttext_installed :: bool

text \<open>
  A language model object as loading and saving see it: its class, its name, its language
  and the wrapped model, which is a transformers model (a configuration object and
  weights) or an \<^verbatim>\<open>EmbeddingModel\<close>. The poolers of \<^verbatim>\<open>DistilBert\<close>, \<^verbatim>\<open>XLNet\<close> and
  \<^verbatim>\<open>WordEmbedding_LM\<close> are built by the library and are left out; so are the records of
  the logger.
\<close>

record 'w transformers_model =
  tm_config :: attrs
  tm_weights :: 'w

datatype 'w wrapped = TransformersModel "'w transformers_model" | Embeddings embedding_model

record 'w language_model =
  lm_class :: adapter
  lm_name :: string
  lm_language :: jval
  lm_model :: "'w wrapped"

text \<open>
  The keyword arguments that the loaders look at; \<open>JNull\<close> is Python's \<^verbatim>\<open>None\<close>.
\<close>

record kwargs =
  kw_language :: jval
  kw_farm_lm_name :: "string option"

definition no_kwargs :: kwargs where
  "no_kwargs = \<lparr>kw_language = JNull, kw_farm_lm_name = None\<rparr>"

definition model_config :: "'w language_model \<Rightarrow> attrs" where
  "model_config self =
     (case lm_model self of TransformersModel tm \<Rightarrow> tm_config tm | Embeddings em \<Rightarrow> em_config em)"

definition set_model_config :: "'w language_model \<Rightarrow> attrs \<Rightarrow> 'w language_model" where
  "set_model_config self cfg =
     (case lm_model self of
        TransformersModel tm \<Rightarrow> self\<lparr>lm_model := TransformersModel (tm\<lparr>tm_config := cfg\<rparr>)\<rparr>
      | Embeddings em \<Rightarrow> self\<lparr>lm_model := Embeddings (em\<lparr>em_config := cfg\<rparr>)\<rparr>)"

subsection \<open>The language of a model\<close>

definition known_languages :: "string list" where
  "known_languages =
     [''german'', ''english'', ''chinese'', ''indian'', ''french'', ''polish'', ''spanish'',
      ''multilingual'']"

text \<open>Python's \<^verbatim>\<open>x in s\<close> for strings is \<^const>\<open>sublist\<close>.\<close>

definition infer_language_from_name :: "string \<Rightarrow> py_error + string" where
  "infer_language_from_name name =
     (let matches = filter (\<lambda>lang. sublist lang name) known_languages in
      if length matches = 0 then Inr ''english''
      else if length matches > 1
      then Inl (ValueError ''Could not automatically detect from language model name what language it is.'')
      else Inr (matches ! 0))"

definition get_or_infer_language_from_name :: "jval \<Rightarrow> string \<Rightarrow> py_error + jval" where
  "get_or_infer_language_from_name language name =
     (if language \<noteq> JNull then Inr language
      else bind (infer_language_from_name name) (\<lambda>l. Inr (JStr l)))"

subsection \<open>The loaders of the adapters\<close>

definition read_weights :: "'w filesystem \<Rightarrow> string \<Rightarrow> py_error + 'w" where
  "read_weights fs p =
     (case fs p of
        Some (WeightsFile w) \<Rightarrow> Inr w
      | Some _ \<Rightarrow> Inl (LibraryError ''UnpicklingError'')
      | None \<Rightarrow> Inl (LibraryError ''OSError''))"

text \<open>
  The six loaders of the transformer adapters share their text up to the classes they
  name: the class of the model and the class whose \<^verbatim>\<open>from_pretrained\<close> reads the
  configuration file. In the branch for a directory in FARM format, the configuration is
  the class's defaults overridden by the attributes of the file, the model built from it
  holds this configuration, and the language is read from it.
\<close>

definition transformers_load ::
  "'w library \<Rightarrow> 'w filesystem \<Rightarrow> adapter \<Rightarrow> adapter \<Rightarrow> string \<Rightarrow> kwargs
     \<Rightarrow> py_error + 'w language_model" where
  "transformers_load lib fs cls config_cls pretrained_model_name_or_path kw =
     (let name = (case kw_farm_lm_name kw of
                    Some n \<Rightarrow> n | None \<Rightarrow> pretrained_model_name_or_path);
          farm_lm_config = path_join pretrained_model_name_or_path ''language_model_config.json''
      in if fs farm_lm_config \<noteq> None then
           bind (json_load fs farm_lm_config) (\<lambda>json.
             let config = config_defaults lib config_cls ++ json;
                 farm_lm_model = path_join pretrained_model_name_or_path ''language_model.bin''
             in bind (read_weights fs farm_lm_model) (\<lambda>w.
                bind (load_state_dict lib cls config w) (\<lambda>w'.
                  case config ''language'' of
                    None \<Rightarrow> Inl (AttributeError ''language'')
                  | Some language \<Rightarrow>
                      Inr \<lparr>lm_class = cls, lm_name = name, lm_language = language,
                           lm_model = TransformersModel \<lparr>tm_config = config, tm_weights = w'\<rparr>\<rparr>)))
         else
           bind (hub lib cls pretrained_model_name_or_path) (\<lambda>(config, w).
           bind (get_or_infer_language_from_name (kw_language kw) pretrained_model_name_or_path)
             (\<lambda>language.
               Inr \<lparr>lm_class = cls, lm_name = name, lm_language = language,
                    lm_model = TransformersModel \<lparr>tm_config = config, tm_weights = w\<rparr>\<rparr>)))"

definition Bert_load :: "'w library \<Rightarrow> 'w filesystem \<Rightarrow> string \<Rightarrow> kwargs \<Rightarrow> py_error + 'w language_model" where
  "Bert_load lib fs pretrained_model_name_or_path kw =
     transformers_load lib fs Bert Bert pretrained_model_name_or_path kw"

definition Albert_load :: "'w library \<Rightarrow> 'w filesystem \<Rightarrow> string \<Rightarrow> kwargs \<Rightarrow> py_error + 'w language_model" where
  "Albert_load lib fs pretrained_model_name_or_path kw =
     transformers_load lib fs Albert Albert pretrained_model_name_or_path kw"

definition Roberta_load :: "'w library \<Rightarrow> 'w filesystem \<Rightarrow> string \<Rightarrow> kwargs \<Rightarrow> py_error + 'w language_model" where
  "Roberta_load lib fs pretrained_model_name_or_path kw =
     transformers_load lib fs Roberta Roberta pretrained_model_name_or_path kw"

definition XLMRoberta_load :: "'w library \<Rightarrow> 'w filesystem \<Rightarrow> string \<Rightarrow> kwargs \<Rightarrow> py_error + 'w language_model" where
  "XLMRoberta_load lib fs pretrained_model_name_or_path kw =
     transformers_load lib fs XLMRoberta XLMRoberta pretrained_model_name_or_path kw"

text \<open>
  \<^verbatim>\<open>DistilBert.load\<close> reads the configuration file with \<^verbatim>\<open>AlbertConfig\<close>, and sets three
  attributes of the model's configuration for its pooler; \<^verbatim>\<open>XLNet.load\<close> sets one.
\<close>

definition DistilBert_load :: "'w library \<Rightarrow> 'w filesystem \<Rightarrow> string \<Rightarrow> kwargs \<Rightarrow> py_error + 'w language_model" where
  "DistilBert_load lib fs pretrained_model_name_or_path kw =
     bind (transformers_load lib fs DistilBert Albert pretrained_model_name_or_path kw)
       (\<lambda>distilbert.
          Inr (set_model_config distilbert
                 ((model_config distilbert)
                    (''summary_last_dropout'' \<mapsto> JInt 0, ''summary_type'' \<mapsto> JStr ''first'',
                     ''summary_activation'' \<mapsto> JStr ''tanh''))))"

definition XLNet_load :: "'w library \<Rightarrow> 'w filesystem \<Rightarrow> string \<Rightarrow> kwargs \<Rightarrow> py_error + 'w language_model" where
  "XLNet_load lib fs pretrained_model_name_or_path kw =
     bind (transformers_load lib fs XLNet XLNet pretrained_model_name_or_path kw)
       (\<lambda>xlnet.
          Inr (set_model_config xlnet
                 ((model_config xlnet)(''summary_last_dropout'' \<mapsto> JInt 0))))"

text \<open>\<^verbatim>\<open>Path(p) / config[key]\<close> needs the key, and a string under it.\<close>

definition config_filename :: "attrs \<Rightarrow> string \<Rightarrow> py_error + string" where
  "config_filename config key =
     (case config key of
        None \<Rightarrow> Inl (KeyError (Some key))
      | Some (JStr n) \<Rightarrow> Inr n
      | Some _ \<Rightarrow> Inl (TypeError ''unsupported operand type(s) for /''))"

definition WordEmbedding_LM_load ::
  "'w library \<Rightarrow> 'w filesystem \<Rightarrow> string \<Rightarrow> kwargs \<Rightarrow> py_error + 'w language_model" where
  "WordEmbedding_LM_load lib fs pretrained_model_name_or_path kw =
     (if \<not> fasttext_installed lib then Inl (LibraryError ''ModuleNotFoundError: fasttext'')
      else
        let name = (case kw_farm_lm_name kw of
                      Some n \<Rightarrow> n | None \<Rightarrow> pretrained_model_name_or_path);
            farm_lm_config = path_join pretrained_model_name_or_path ''language_model_config.json''
        in if fs farm_lm_config \<noteq> None then
             bind (json_load fs farm_lm_config) (\<lambda>config.
             bind (config_filename config ''embeddings_filename'') (\<lambda>embeddings_filename.
             bind (config_filename config ''vocab_filename'') (\<lambda>vocab_filename.
             bind (EmbeddingModel_init (np_fromstring lib) fs
                     (path_join pretrained_model_name_or_path embeddings_filename) config
                     (path_join pretrained_model_name_or_path vocab_filename)) (\<lambda>(em, lg).
               Inr \<lparr>lm_class = WordEmbedding_LM, lm_name = name,
                    lm_language = (case config ''language'' of None \<Rightarrow> JNull | Some l \<Rightarrow> l),
                    lm_model = Embeddings em\<rparr>))))
           else Inl NotImplementedError)"

text \<open>\<^verbatim>\<open>cls.subclasses[...].load(...)\<close>: the loader of the class found.\<close>

fun adapter_load ::
  "adapter \<Rightarrow> 'w library \<Rightarrow> 'w filesystem \<Rightarrow> string \<Rightarrow> kwargs \<Rightarrow> py_error + 'w language_model" where
  "adapter_load Bert = Bert_load"
| "adapter_load Albert = Albert_load"
| "adapter_load Roberta = Roberta_load"
| "adapter_load XLMRoberta = XLMRoberta_load"
| "adapter_load DistilBert = DistilBert_load"
| "adapter_load XLNet = XLNet_load"
| "adapter_load WordEmbedding_LM = WordEmbedding_LM_load"

subsection \<open>\<^verbatim>\<open>LanguageModel.load\<close>\<close>

text \<open>
  \<^verbatim>\<open>str.lower()\<close> on code points below 256: the capital letters of ASCII and of Latin-1.
\<close>

definition lower :: "string \<Rightarrow> string" where
  "lower s =
     map (\<lambda>c. let n = (of_char c :: nat)
               in if (65 \<le> n \<and> n \<le> 90) \<or> (192 \<le> n \<and> n \<le> 222 \<and> n \<noteq> 215)
                  then char_of (n + 32) else c) s"

text \<open>
  The chain of tests on the name, for a call without \<^verbatim>\<open>language_model_class\<close>. When no
  test succeeds \<^verbatim>\<open>language_model_class\<close> stays \<^verbatim>\<open>None\<close>.
\<close>

definition infer_language_model_class :: "string \<Rightarrow> string option" where
  "infer_language_model_class pretrained_model_name_or_path =
     (if sublist ''xlm'' pretrained_model_name_or_path
         \<and> sublist ''roberta'' pretrained_model_name_or_path then Some ''XLMRoberta''
      else if sublist ''roberta'' pretrained_model_name_or_path then Some ''Roberta''
      else if sublist ''albert'' pretrained_model_name_or_path then Some ''Albert''
      else if sublist ''distilbert'' pretrained_model_name_or_path then Some ''DistilBert''
      else if sublist ''bert'' pretrained_model_name_or_path then Some ''Bert''
      else if sublist ''xlnet'' pretrained_model_name_or_path then Some ''XLNet''
      else if sublist ''word2vec'' (lower pretrained_model_name_or_path)
              \<or> sublist ''glove'' (lower pretrained_model_name_or_path)
      then Some ''WordEmbedding_LM''
      else None)"

text \<open>
  \<^verbatim>\<open>cls.subclasses[key]\<close> raises \<^verbatim>\<open>KeyError\<close> for a key that is not a class name, such as
  \<^verbatim>\<open>None\<close>.
\<close>

definition subclasses_lookup :: "string option \<Rightarrow> py_error + adapter" where
  "subclasses_lookup key =
     (case key of
        None \<Rightarrow> Inl (KeyError None)
      | Some k \<Rightarrow> (case subclasses k of None \<Rightarrow> Inl (KeyError (Some k)) | Some cls \<Rightarrow> Inr cls))"

text \<open>
  \<^verbatim>\<open>if not language_model\<close>: a language model is a \<^verbatim>\<open>nn.Module\<close>, which defines neither
  \<^verbatim>\<open>__bool__\<close> nor \<^verbatim>\<open>__len__\<close>, so the object counts as true.
\<close>

definition truthy :: "'w language_model \<Rightarrow> bool" where
  "truthy language_model = True"

definition model_not_found :: "string \<Rightarrow> string" where
  "model_not_found pretrained_model_name_or_path =
     ''Model not found for '' @ pretrained_model_name_or_path @
     ''. Either supply the local path for a saved model or one of bert/roberta/xlnet/albert/distilbert models that can be downloaded from remote. Here's the list of available models: https://farm.deepset.ai/api/modeling.html#farm.modeling.language_model.LanguageModel.load''"

text \<open>
  The resizing of the embeddings for added tokens. For an \<^verbatim>\<open>EmbeddingModel\<close>,
  \<^verbatim>\<open>resize_token_embeddings\<close> is the method of this file, which changes nothing.
\<close>

definition resize_for_added_tokens ::
  "'w library \<Rightarrow> 'w language_model \<Rightarrow> int \<Rightarrow> py_error + 'w language_model" where
  "resize_for_added_tokens lib language_model n_added_tokens =
     (case lm_model language_model of
        TransformersModel tm \<Rightarrow>
          (let model_emb_size = num_embeddings lib (tm_config tm, tm_weights tm);
               vocab_size = model_emb_size + n_added_tokens;
               resized = resize_token_embeddings lib vocab_size (tm_config tm, tm_weights tm)
           in if vocab_size = num_embeddings lib resized
              then Inr (language_model\<lparr>lm_model :=
                          TransformersModel \<lparr>tm_config = fst resized, tm_weights = snd resized\<rparr>\<rparr>)
              else Inl (AssertionError []))
      | Embeddings em \<Rightarrow>
          (let model_emb_size = EmbeddingModel_num_embeddings em;
               vocab_size = model_emb_size + n_added_tokens
           in if vocab_size = EmbeddingModel_num_embeddings em
              then Inr language_model
              else Inl (AssertionError [])))"

definition LanguageModel_load ::
  "'w library \<Rightarrow> 'w filesystem \<Rightarrow> string \<Rightarrow> int \<Rightarrow> string option \<Rightarrow> kwargs
     \<Rightarrow> py_error + 'w language_model" where
  "LanguageModel_load lib fs pretrained_model_name_or_path n_added_tokens language_model_class kw =
     (let config_file = path_join pretrained_model_name_or_path ''language_model_config.json'' in
      bind
        (if fs config_file \<noteq> None then
           bind (json_load fs config_file) (\<lambda>config.
           bind (case config ''name'' of
                   None \<Rightarrow> Inl (KeyError (Some ''name''))
                 | Some (JStr n) \<Rightarrow> subclasses_lookup (Some n)
                 | Some _ \<Rightarrow> subclasses_lookup None) (\<lambda>cls.
           bind (adapter_load cls lib fs pretrained_model_name_or_path no_kwargs)
             (\<lambda>language_model. Inr (language_model, n_added_tokens))))
         else
           (let language_model_class' =
                  (case language_model_class of
                     None \<Rightarrow> infer_language_model_class pretrained_model_name_or_path
                   | Some c \<Rightarrow> Some c)
            in bind (subclasses_lookup language_model_class') (\<lambda>cls.
               bind (adapter_load cls lib fs pretrained_model_name_or_path kw)
                 (\<lambda>language_model.
                    Inr (language_model,
                         if language_model_class' = Some ''XLMRoberta'' then 3
                         else n_added_tokens)))))
        (\<lambda>(language_model, n_added_tokens).
           if \<not> truthy language_model
           then Inl (Exception (model_not_found pretrained_model_name_or_path))
           else if n_added_tokens \<noteq> 0
           then resize_for_added_tokens lib language_model n_added_tokens
           else Inr language_model))"

subsection \<open>Saving\<close>

text \<open>
  \<^verbatim>\<open>save_config\<close> sets the attributes \<^verbatim>\<open>name\<close> and \<^verbatim>\<open>language\<close> of the model's
  configuration and writes the configuration as JSON: the file holds the attributes.
\<close>

definition save_config ::
  "'w language_model \<Rightarrow> string \<Rightarrow> 'w filesystem \<Rightarrow> 'w language_model \<times> 'w filesystem" where
  "save_config self save_dir fs =
     (let save_filename = path_join save_dir ''language_model_config.json'';
          config = (model_config self)
                     (''name'' \<mapsto> JStr (class_name (lm_class self)),
                      ''language'' \<mapsto> lm_language self)
      in (set_model_config self config, fs(save_filename \<mapsto> JsonFile config)))"

text \<open>\<^verbatim>\<open>LanguageModel.save\<close>, which the six transformer adapters inherit.\<close>

definition LanguageModel_save ::
  "'w language_model \<Rightarrow> string \<Rightarrow> 'w filesystem \<Rightarrow> py_error + 'w language_model \<times> 'w filesystem" where
  "LanguageModel_save self save_dir fs =
     (case lm_model self of
        TransformersModel tm \<Rightarrow>
          (let save_name = path_join save_dir ''language_model.bin''
           in Inr (save_config self save_dir (fs(save_name \<mapsto> WeightsFile (tm_weights tm)))))
      | Embeddings em \<Rightarrow> Inl (AttributeError ''state_dict''))"

text \<open>\<^verbatim>\<open>WordEmbedding_LM.save\<close> writes the table of embeddings and the configuration.\<close>

definition WordEmbedding_LM_save ::
  "'w library \<Rightarrow> 'w language_model \<Rightarrow> string \<Rightarrow> 'w filesystem
     \<Rightarrow> py_error + 'w language_model \<times> 'w filesystem" where
  "WordEmbedding_LM_save lib self save_dir fs =
     (case lm_model self of
        Embeddings em \<Rightarrow>
          bind (EmbeddingModel_save (format_6f lib) em save_dir fs)
            (\<lambda>fs'. Inr (save_config self save_dir fs'))
      | TransformersModel tm \<Rightarrow> Inl (TypeError ''save() got an unexpected keyword argument''))"

text \<open>\<^verbatim>\<open>language_model.save(save_dir)\<close>: the method of the object's class.\<close>

definition save ::
  "'w library \<Rightarrow> 'w language_model \<Rightarrow> string \<Rightarrow> 'w filesystem
     \<Rightarrow> py_error + 'w language_model \<times> 'w filesystem" where
  "save lib self save_dir fs =
     (if lm_class self = WordEmbedding_LM then WordEmbedding_LM_save lib self save_dir fs
      else LanguageModel_save self save_dir fs)"

text \<open>
  The spec's words for dispatch: the rules of the families in their order of precedence,
  each a test on the name and a class name; the first rule whose test holds decides.
\<close>

definition precedence :: "((string \<Rightarrow> bool) \<times> string) list" where
  "precedence =
     [(\<lambda>p. sublist ''xlm'' p \<and> sublist ''roberta'' p, ''XLMRoberta''),
      (sublist ''roberta'', ''Roberta''),
      (sublist ''albert'', ''Albert''),
      (sublist ''distilbert'', ''DistilBert''),
      (sublist ''bert'', ''Bert''),
      (sublist ''xlnet'', ''XLNet''),
      (\<lambda>p. sublist ''word2vec'' (lower p) \<or> sublist ''glove'' (lower p), ''WordEmbedding_LM'')]"

fun first_match :: "((string \<Rightarrow> bool) \<times> string) list \<Rightarrow> string \<Rightarrow> string option" where
  "first_match [] p = None"
| "first_match ((test, cls) # rules) p = (if test p then Some cls else first_match rules p)"

text \<open>
  The family names that the generic loader supports: an identifier contains one of them
  when a test of the chain holds for it, \<^verbatim>\<open>xlm\<close> being a qualifier of \<^verbatim>\<open>roberta\<close> only.
\<close>

definition names_supported_family :: "string \<Rightarrow> bool" where
  "names_supported_family p =
     (sublist ''roberta'' p \<or> sublist ''albert'' p \<or> sublist ''distilbert'' p \<or>
      sublist ''bert'' p \<or> sublist ''xlnet'' p \<or>
      sublist ''word2vec'' (lower p) \<or> sublist ''glove'' (lower p))"

subsection \<open>Round trip and a library for concrete runs\<close>

text \<open>Saving a model to a directory and loading from that directory with the generic loader.\<close>

definition save_then_load ::
  "'w library \<Rightarrow> 'w language_model \<Rightarrow> string \<Rightarrow> 'w filesystem \<Rightarrow> py_error + 'w language_model" where
  "save_then_load lib self save_dir fs =
     bind (save lib self save_dir fs) (\<lambda>(self', fs').
       LanguageModel_load lib fs' save_dir 0 None no_kwargs)"

text \<open>The class whose \<^verbatim>\<open>from_pretrained\<close> reads the configuration file in an adapter's loader.\<close>

fun config_class_of :: "adapter \<Rightarrow> adapter" where
  "config_class_of DistilBert = Albert"
| "config_class_of cls = cls"

text \<open>
  A library to run the loaders on concrete inputs: weights are the number of rows of the
  embedding matrix, every name is known to the hub and stands for a model of 30000 rows,
  and numbers are parsed by \<^const>\<open>decimal_fromstring\<close>. The formatting of numbers is left
  as a parameter.
\<close>

definition example_library :: "(real \<Rightarrow> string) \<Rightarrow> nat library" where
  "example_library fmt =
     \<lparr>hub = (\<lambda>cls name. Inr ([''vocab_size'' \<mapsto> JInt 30000], 30000)),
      config_defaults = (\<lambda>cls. Map.empty),
      load_state_dict = (\<lambda>cls config w. Inr w),
      resize_token_embeddings = (\<lambda>n (config, w). (config(''vocab_size'' \<mapsto> JInt n), nat n)),
      num_embeddings = (\<lambda>(config, w). int w),
      np_fromstring = decimal_fromstring,
      format_6f = fmt,
      fasttext_installed = True\<rparr>"


section \<open>Properties of vector extraction\<close>

lemma bind_simps: "bind (Inl e) f = Inl e" "bind (Inr x) f = f x"
  by (simp_all add: bind_def)

lemma sequence_err_all_Inr: "sequence_err (map Inr xs) = Inr xs"
  by (induction xs) auto

lemma broadcast_mask_same_shape:
  "broadcast_mask tv (map (\<lambda>item. replicate (length item) b) tv)
     = Inr (map (\<lambda>item. replicate (length item) b) tv)"
proof -
  have "map (\<lambda>(item, row). broadcast_axis (length item) row)
          (zip tv (map (\<lambda>item. replicate (length item) b) tv))
        = map Inr (map (\<lambda>item. replicate (length item) b) tv)"
    by (induction tv) (auto simp: broadcast_axis_def)
  moreover have "broadcast_axis (length tv) (map (\<lambda>item. replicate (length item) b) tv)
      = Inr (map (\<lambda>item. replicate (length item) b) tv)"
    by (simp add: broadcast_axis_def)
  ultimately show ?thesis
    unfolding broadcast_mask_def
    by (simp only: bind_simps sequence_err_all_Inr)
qed

lemma kept_all:
  "map fst (filter (\<lambda>(v, m). \<not> m) (zip item (replicate (length item) False))) = item"
  by (induction item) auto

lemma pool_item_all_valid:
  "item \<noteq> [] \<Longrightarrow>
     pool_item (masked_mean fill) item (replicate (length item) False) = unweighted_mean item"
  by (cases item) (auto simp: pool_item_def kept_all unweighted_mean_def masked_mean_def Let_def)

lemma pool_tokens_all_valid:
  assumes "\<forall>item \<in> set so. item \<noteq> []"
  shows "pool_tokens fill so (Some (map (\<lambda>item. replicate (length item) 1) so)) ''reduce_mean'' False
           = Inr (map unweighted_mean so)"
proof -
  have m: "map (map (\<lambda>x. x = (0::int))) (map (\<lambda>item. replicate (length item) 1) so)
             = map (\<lambda>item. replicate (length item) False) so"
    by simp
  have z: "map (\<lambda>(item, ignore). pool_item (masked_mean fill) item ignore)
             (zip so (map (\<lambda>item. replicate (length item) False) so)) = map unweighted_mean so"
    using assms by (induction so) (auto simp: pool_item_all_valid)
  show ?thesis
    unfolding pool_tokens_def Let_def option.case m
    by (simp only: if_False bind_simps broadcast_mask_same_shape z if_True refl)
qed

text \<open>
  Claim C3. With the strategy \<^verbatim>\<open>pooled\<close> and an extraction layer other than \<open>-1\<close>,
  \<^verbatim>\<open>formatted_preds\<close> never returns predictions, whatever the other arguments are; whenever
  \<^verbatim>\<open>logits[0]\<close> exists the exception is a \<^verbatim>\<open>ValueError\<close>, and it is the one about the last
  layer when the attribute \<^verbatim>\<open>extraction_layer\<close> is set.
\<close>

theorem pooled_needs_last_layer:
  assumes "extraction_strategy self = Some ''pooled''"
    and "extraction_layer self \<noteq> Some (- 1)"
  shows "(\<forall>preds. formatted_preds fill self logits samples ift pm \<noteq> Inr preds) \<and>
         (logits \<noteq> [] \<longrightarrow>
            (\<exists>msg. formatted_preds fill self logits samples ift pm = Inl (ValueError msg))) \<and>
         (logits \<noteq> [] \<and> extraction_layer self \<noteq> None \<longrightarrow>
            formatted_preds fill self logits samples ift pm =
              Inl (ValueError ''Pooled output only works for the last layer''))"
  using assms
  by (cases "extraction_layer self"; cases logits)
     (auto simp: formatted_preds_def bind_simps split: prod.splits)

theorem pooled_needs_last_layer_witness:
  "extraction_strategy \<lparr>extraction_layer = Some (- 2), extraction_strategy = Some ''pooled''\<rparr>
     = Some ''pooled'' \<and>
   extraction_layer \<lparr>extraction_layer = Some (- 2), extraction_strategy = Some ''pooled''\<rparr>
     \<noteq> Some (- 1) \<and>
   [([[[1, 2], [3, 6]]], [[5, 7]])] \<noteq> [] \<and>
   formatted_preds 0 \<lparr>extraction_layer = Some (- 2), extraction_strategy = Some ''pooled''\<rparr>
     [([[[1, 2], [3, 6]]], [[5, 7]])] [\<lparr>tokens = [''a'', ''b'']\<rparr>] True (Some [[1, 1]])
     = Inl (ValueError ''Pooled output only works for the last layer'')"
  using pooled_needs_last_layer
    [of "\<lparr>extraction_layer = Some (- 2), extraction_strategy = Some ''pooled''\<rparr>"
        0 "[([[[1, 2], [3, 6]]], [[5, 7]])]" "[\<lparr>tokens = [''a'', ''b'']\<rparr>]" True "Some [[1, 1]]"]
  by simp

text \<open>
  Claim C4. With the strategy \<^verbatim>\<open>cls_token\<close> the result does not depend on the padding mask
  (nor on the flag for the first token), and for a batch in which every item has a token
  at position 0 each prediction carries exactly that item's vector at position 0.
\<close>

theorem cls_token_first_vector:
  assumes "extraction_strategy self = Some ''cls_token''"
    and "extraction_layer self = Some layer"
  shows "formatted_preds fill self logits samples ift pm
           = formatted_preds fill self logits samples ift' pm' \<and>
         ((\<forall>item \<in> set so. item \<noteq> []) \<longrightarrow>
            formatted_preds fill self ((so, po) # rest) samples ift pm =
              Inr (map (\<lambda>(item, s). \<lparr>pred_context = tokens s, pred_vec = Vec1 (item ! 0)\<rparr>)
                     (zip so samples)))"
  using assms
  by (auto simp: formatted_preds_def bind_simps first_token_def make_preds_def zip_map1
           split: list.splits)

theorem cls_token_first_vector_witness:
  "extraction_strategy \<lparr>extraction_layer = Some (- 1), extraction_strategy = Some ''cls_token''\<rparr>
     = Some ''cls_token'' \<and>
   extraction_layer \<lparr>extraction_layer = Some (- 1), extraction_strategy = Some ''cls_token''\<rparr>
     = Some (- 1) \<and>
   ([] :: real list list) \<notin> set [[[1, 2], [3, 6]], [[4, 8], [9, 9]]] \<and>
   formatted_preds 0 \<lparr>extraction_layer = Some (- 1), extraction_strategy = Some ''cls_token''\<rparr>
     [([[[1, 2], [3, 6]], [[4, 8], [9, 9]]], [[5, 7], [0, 0]])]
     [\<lparr>tokens = [''a'', ''b'']\<rparr>, \<lparr>tokens = [''c'', ''d'']\<rparr>] True (Some [[1, 0], [0, 0]])
     = Inr [\<lparr>pred_context = [''a'', ''b''], pred_vec = Vec1 [1, 2]\<rparr>,
            \<lparr>pred_context = [''c'', ''d''], pred_vec = Vec1 [4, 8]\<rparr>]"
  using cls_token_first_vector
    [of "\<lparr>extraction_layer = Some (- 1), extraction_strategy = Some ''cls_token''\<rparr>" "- 1"
        0 "[]" "[\<lparr>tokens = [''a'', ''b'']\<rparr>, \<lparr>tokens = [''c'', ''d'']\<rparr>]" True "Some [[1, 0], [0, 0]]"
        True "Some [[1, 0], [0, 0]]" "[[[1, 2], [3, 6]], [[4, 8], [9, 9]]]" "[[5, 7], [0, 0]]" "[]"]
  by simp

text \<open>
  Claim C5. With the strategy \<^verbatim>\<open>reduce_mean\<close>, the first token not excluded and a padding
  mask of ones in the shape of the batch, each prediction carries the unweighted arithmetic
  mean of its item's token vectors across the sequence axis.
\<close>

theorem reduce_mean_all_valid:
  assumes "extraction_strategy self = Some ''reduce_mean''"
    and "extraction_layer self = Some layer"
    and "\<forall>item \<in> set so. item \<noteq> []"
  shows "formatted_preds fill self ((so, po) # rest) samples False
           (Some (map (\<lambda>item. replicate (length item) 1) so))
         = Inr (map (\<lambda>(item, s). \<lparr>pred_context = tokens s,
                                   pred_vec = Vec1 (unweighted_mean item)\<rparr>)
                  (zip so samples))"
  using assms
  by (auto simp: formatted_preds_def pool_tokens_all_valid bind_simps make_preds_def zip_map1)

theorem reduce_mean_all_valid_witness:
  "extraction_strategy \<lparr>extraction_layer = Some (- 1), extraction_strategy = Some ''reduce_mean''\<rparr>
     = Some ''reduce_mean'' \<and>
   extraction_layer \<lparr>extraction_layer = Some (- 1), extraction_strategy = Some ''reduce_mean''\<rparr>
     = Some (- 1) \<and>
   ([] :: real list list) \<notin> set [[[1, 2], [3, 6]]] \<and>
   formatted_preds 0 \<lparr>extraction_layer = Some (- 1), extraction_strategy = Some ''reduce_mean''\<rparr>
     [([[[1, 2], [3, 6]]], [[0, 0]])] [\<lparr>tokens = [''a'', ''b'']\<rparr>] False (Some [[1, 1]])
   = Inr [\<lparr>pred_context = [''a'', ''b''], pred_vec = Vec1 [2, 4]\<rparr>]"
  using reduce_mean_all_valid
    [of "\<lparr>extraction_layer = Some (- 1), extraction_strategy = Some ''reduce_mean''\<rparr>" "- 1"
        "[[[1, 2], [3, 6]]]" 0 "[[0, 0]]" "[]" "[\<lparr>tokens = [''a'', ''b'']\<rparr>]"]
  by (simp add: unweighted_mean_def)

section \<open>Properties of the forward pass\<close>

lemma DistilBert_forward_never_triple:
  "DistilBert_forward call self ids pm \<noteq> Inr (Triple3 so po hs)"
  by (auto simp: DistilBert_forward_def bind_def split: sum.splits if_splits)

text \<open>
  Claim C10. \<^verbatim>\<open>DistilBert.forward\<close> never returns a triple, whatever its arguments and the
  state of the model are. After \<^verbatim>\<open>enable_hidden_states_output\<close> it returns the pair of the
  sequence output and the pooler's output as soon as the wrapped model delivers the two
  elements that the branch unpacks, while \<^verbatim>\<open>Bert\<close>, \<^verbatim>\<open>Albert\<close>, \<^verbatim>\<open>Roberta\<close>,
  \<^verbatim>\<open>XLMRoberta\<close> and \<^verbatim>\<open>XLNet\<close> return a triple whose last component is the hidden states.
\<close>

theorem DistilBert_forward_pair_only:
  "(\<forall>so po hs. DistilBert_forward call self ids pm \<noteq> Inr (Triple3 so po hs)) \<and>
   (call (model (DistilBert_enable_hidden_states_output self)) ids None pm = Inr out \<and>
      1 < length out \<and> pooler self = Some p \<and> p (out ! 0) = Inr po \<longrightarrow>
      DistilBert_forward call (DistilBert_enable_hidden_states_output self) ids pm
        = Inr (Pair2 (out ! 0) po)) \<and>
   (call (model (Bert_enable_hidden_states_output self)) ids (Some seg) pm = Inr out \<and>
      2 < length out \<longrightarrow>
      Bert_forward call (Bert_enable_hidden_states_output self) ids seg pm
        = Inr (Triple3 (out ! 0) (out ! 1) (out ! 2))) \<and>
   (call (model (Albert_enable_hidden_states_output self)) ids (Some seg) pm = Inr out \<and>
      2 < length out \<longrightarrow>
      Albert_forward call (Albert_enable_hidden_states_output self) ids seg pm
        = Inr (Triple3 (out ! 0) (out ! 1) (out ! 2))) \<and>
   (call (model (Roberta_enable_hidden_states_output self)) ids (Some seg) pm = Inr out \<and>
      2 < length out \<longrightarrow>
      Roberta_forward call (Roberta_enable_hidden_states_output self) ids seg pm
        = Inr (Triple3 (out ! 0) (out ! 1) (out ! 2))) \<and>
   (call (model (XLMRoberta_enable_hidden_states_output self)) ids (Some seg) pm = Inr out \<and>
      2 < length out \<longrightarrow>
      XLMRoberta_forward call (XLMRoberta_enable_hidden_states_output self) ids seg pm
        = Inr (Triple3 (out ! 0) (out ! 1) (out ! 2))) \<and>
   (call (model (XLNet_enable_hidden_states_output self)) ids (Some seg) pm = Inr out \<and>
      1 < length out \<and> pooler self = Some p \<and> p (out ! 0) = Inr po \<longrightarrow>
      XLNet_forward call (XLNet_enable_hidden_states_output self) ids seg pm
        = Inr (Triple3 (out ! 0) po (out ! 1)))"
proof (intro conjI allI impI)
  fix so po hs show "DistilBert_forward call self ids pm \<noteq> Inr (Triple3 so po hs)"
    by (rule DistilBert_forward_never_triple)
qed (auto simp: DistilBert_forward_def Bert_forward_def Albert_forward_def Roberta_forward_def
       XLMRoberta_forward_def XLNet_forward_def
       DistilBert_enable_hidden_states_output_def Bert_enable_hidden_states_output_def
       Albert_enable_hidden_states_output_def Roberta_enable_hidden_states_output_def
       XLMRoberta_enable_hidden_states_output_def XLNet_enable_hidden_states_output_def
       bind_simps tuple_get_def apply_pooler_def)

theorem DistilBert_forward_pair_only_witness:
  "DistilBert_forward (\<lambda>flags ids seg pm. Inr [10, 20, 30 :: nat])
      (DistilBert_enable_hidden_states_output
         \<lparr>model = \<lparr>encoder_output_hidden_states = False, config_output_hidden_states = False,
                     model_output_hidden_states = False\<rparr>,
          pooler = Some (\<lambda>x. Inr (x + 1))\<rparr>) [[1, 2]] [[1, 1]]
     = Inr (Pair2 10 11) \<and>
   Bert_forward (\<lambda>flags ids seg pm. Inr [10, 20, 30 :: nat])
      (Bert_enable_hidden_states_output
         \<lparr>model = \<lparr>encoder_output_hidden_states = False, config_output_hidden_states = False,
                     model_output_hidden_states = False\<rparr>,
          pooler = Some (\<lambda>x. Inr (x + 1))\<rparr>) [[1, 2]] [[0, 0]] [[1, 1]]
     = Inr (Triple3 10 20 30) \<and>
   Albert_forward (\<lambda>flags ids seg pm. Inr [10, 20, 30 :: nat])
      (Albert_enable_hidden_states_output
         \<lparr>model = \<lparr>encoder_output_hidden_states = False, config_output_hidden_states = False,
                     model_output_hidden_states = False\<rparr>,
          pooler = Some (\<lambda>x. Inr (x + 1))\<rparr>) [[1, 2]] [[0, 0]] [[1, 1]]
     = Inr (Triple3 10 20 30) \<and>
   Roberta_forward (\<lambda>flags ids seg pm. Inr [10, 20, 30 :: nat])
      (Roberta_enable_hidden_states_output
         \<lparr>model = \<lparr>encoder_output_hidden_states = False, config_output_hidden_states = False,
                     model_output_hidden_states = False\<rparr>,
          pooler = Some (\<lambda>x. Inr (x + 1))\<rparr>) [[1, 2]] [[0, 0]] [[1, 1]]
     = Inr (Triple3 10 20 30) \<and>
   XLMRoberta_forward (\<lambda>flags ids seg pm. Inr [10, 20, 30 :: nat])
      (XLMRoberta_enable_hidden_states_output
         \<lparr>model = \<lparr>encoder_output_hidden_states = False, config_output_hidden_states = False,
                     model_output_hidden_states = False\<rparr>,
          pooler = Some (\<lambda>x. Inr (x + 1))\<rparr>) [[1, 2]] [[0, 0]] [[1, 1]]
     = Inr (Triple3 10 20 30) \<and>
   XLNet_forward (\<lambda>flags ids seg pm. Inr [10, 20, 30 :: nat])
      (XLNet_enable_hidden_states_output
         \<lparr>model = \<lparr>encoder_output_hidden_states = False, config_output_hidden_states = False,
                     model_output_hidden_states = False\<rparr>,
          pooler = Some (\<lambda>x. Inr (x + 1))\<rparr>) [[1, 2]] [[0, 0]] [[1, 1]]
     = Inr (Triple3 10 11 20)"
  using DistilBert_forward_pair_only [of "\<lambda>flags ids seg pm. Inr [10, 20, 30 :: nat]"
      "\<lparr>model = \<lparr>encoder_output_hidden_states = False, config_output_hidden_states = False,
                     model_output_hidden_states = False\<rparr>,
          pooler = Some (\<lambda>x. Inr (x + 1))\<rparr>" "[[1, 2]]" "[[1, 1]]" "[10, 20, 30]"
      "\<lambda>x. Inr (x + 1)" 11 "[[0, 0]]"]
  by simp

section \<open>Properties of the word-embedding loader\<close>

lemma store_vector_inv:
  "vectors_have_length st \<Longrightarrow> embeddings_dimensionality st \<noteq> None
     \<Longrightarrow> vectors_have_length (store_vector st w v)"
  by (auto simp: vectors_have_length_def store_vector_def split: option.splits)

lemma load_line_inv:
  assumes "load_line fromstring st l = Inr st'" and "vectors_have_length st"
  shows "vectors_have_length st'"
proof -
  have a: "vectors_have_length (store_vector (st\<lparr>embeddings_dimensionality := Some n\<rparr>) w v)"
    if "embeddings_dimensionality st = None" for n w v
    using assms(2) that by (auto simp: vectors_have_length_def store_vector_def)
  have b: "vectors_have_length (store_vector st w v)"
    if "embeddings_dimensionality st = Some d" for d w v
    using assms(2) that by (intro store_vector_inv) auto
  have c: "vectors_have_length (st\<lparr>logged := x\<rparr>)" "vectors_have_length (st\<lparr>repetitions := y\<rparr>)" for x y
    using assms(2) by (auto simp: vectors_have_length_def split: option.splits)
  show ?thesis
    using assms(1) a b c assms(2)
    by (auto simp: load_line_def Let_def split: if_splits list.splits option.splits)
qed

lemma load_lines_inv:
  "load_lines fromstring st f = Inr st' \<Longrightarrow> vectors_have_length st \<Longrightarrow> vectors_have_length st'"
proof (induction f arbitrary: st)
  case Nil then show ?case by simp
next
  case (Cons l f)
  then show ?case by (auto split: sum.splits dest: load_line_inv)
qed

lemma initial_inv: "vectors_have_length initial_load_state"
  by (simp add: vectors_have_length_def initial_load_state_def)

lemma assign_rows_eq:
  assumes "\<forall>w v. vecs w = Some v \<longrightarrow> length v = d"
  shows "k + length ws \<le> length emb \<Longrightarrow>
         assign_rows d vecs emb lg (zip [k..<k + length ws] ws)
           = Inr (take k emb @ map (row_for d vecs) ws @ drop (k + length ws) emb,
                  lg @ warnings_for vecs ws)"
proof (induction ws arbitrary: k emb lg)
  case Nil
  then show ?case by (simp add: warnings_for_def)
next
  case (Cons w ws)
  have len: "length (row_for d vecs w) = d"
    using assms by (auto simp: row_for_def split: option.splits)
  have up: "[k..<k + length (w # ws)] = k # [Suc k..<Suc k + length ws]"
    using upt_conv_Cons[of k "k + length (w # ws)"] by simp
  have step: "assign_rows d vecs emb lg ((k, w) # zip [Suc k..<Suc k + length ws] ws)
     = assign_rows d vecs (emb[k := row_for d vecs w])
         (lg @ warnings_for vecs [w]) (zip [Suc k..<Suc k + length ws] ws)"
    using len by (auto simp: row_for_def warnings_for_def Let_def split: option.splits)
  have "Suc k + length ws \<le> length (emb[k := row_for d vecs w])"
    using Cons.prems by simp
  from Cons.IH[OF this, of "lg @ warnings_for vecs [w]"]
  have "assign_rows d vecs (emb[k := row_for d vecs w]) (lg @ warnings_for vecs [w])
          (zip [Suc k..<Suc k + length ws] ws)
        = Inr (take (Suc k) (emb[k := row_for d vecs w]) @ map (row_for d vecs) ws
                 @ drop (Suc k + length ws) (emb[k := row_for d vecs w]),
               (lg @ warnings_for vecs [w]) @ warnings_for vecs ws)" .
  moreover have "take (Suc k) (emb[k := row_for d vecs w]) = take k emb @ [row_for d vecs w]"
    using Cons.prems by (simp add: take_Suc_conv_app_nth)
  moreover have "drop (Suc k + length ws) (emb[k := row_for d vecs w]) = drop (Suc k + length ws) emb"
    by simp
  moreover have "(lg @ warnings_for vecs [w]) @ warnings_for vecs ws = lg @ warnings_for vecs (w # ws)"
    by (simp add: warnings_for_def)
  ultimately show ?case
    unfolding up zip_Cons_Cons step by simp
qed

lemma load_vectors_rows:
  assumes "load_lines fromstring initial_load_state f = Inr st"
    and "embeddings_dimensionality st = Some d"
  shows "load_vectors fromstring vocab f
           = Inr (map (row_for d (vectors st)) (map fst vocab),
                  logged st @ warnings_for (vectors st) (map fst vocab))"
proof -
  have "vectors_have_length st"
    using load_lines_inv[OF assms(1) initial_inv] .
  then have len: "\<forall>w v. vectors st w = Some v \<longrightarrow> length v = d"
    using assms(2) by (simp add: vectors_have_length_def)
  have "assign_rows d (vectors st) (replicate (length vocab) (replicate d 0)) (logged st)
          (zip [0..<0 + length (map fst vocab)] (map fst vocab))
        = Inr (take 0 (replicate (length vocab) (replicate d 0)) @ map (row_for d (vectors st)) (map fst vocab)
                 @ drop (0 + length (map fst vocab)) (replicate (length vocab) (replicate d 0)),
               logged st @ warnings_for (vectors st) (map fst vocab))"
    by (rule assign_rows_eq[OF len]) simp
  then show ?thesis
    using assms by (simp add: load_vectors_def bind_simps enumerate_keys_def)
qed


lemma load_lines_append:
  "load_lines fromstring st (f @ g) =
     (case load_lines fromstring st f of Inl e \<Rightarrow> Inl e | Inr st' \<Rightarrow> load_lines fromstring st' g)"
  by (induction f arbitrary: st) (auto split: sum.splits)

lemma load_line_mismatch:
  assumes "embeddings_dimensionality st = Some d"
    and "split_first_blank (strip l) = [w, s]" and "fromstring s = Some x" and "length x \<noteq> d"
  shows "\<exists>st'. load_line fromstring st l = Inr st' \<and> vectors st' = vectors st
           \<and> embeddings_dimensionality st' = Some d \<and> logged st' = logged st"
proof -
  have ne: "strip l \<noteq> []"
    using assms(2) by (auto simp: split_first_blank_def)
  show ?thesis
    using assms ne by (auto simp: load_line_def Let_def store_vector_def)
qed

lemma load_lines_mismatch:
  assumes "\<forall>l \<in> set extra. \<exists>w s x. split_first_blank (strip l) = [w, s] \<and> fromstring s = Some x
              \<and> length x \<noteq> d"
  shows "embeddings_dimensionality st = Some d \<Longrightarrow>
         \<exists>st'. load_lines fromstring st extra = Inr st' \<and> vectors st' = vectors st
           \<and> embeddings_dimensionality st' = Some d \<and> logged st' = logged st"
  using assms
proof (induction extra arbitrary: st)
  case Nil
  then show ?case by simp
next
  case (Cons l extra)
  from Cons.prems(2) obtain w s x where
    l: "split_first_blank (strip l) = [w, s]" "fromstring s = Some x" "length x \<noteq> d"
    by auto
  from load_line_mismatch[of st d l w s fromstring x, OF Cons.prems(1) l] obtain st1 where
    st1: "load_line fromstring st l = Inr st1" "vectors st1 = vectors st"
      "embeddings_dimensionality st1 = Some d" "logged st1 = logged st"
    by blast
  from Cons.IH[OF st1(3)] Cons.prems(2) obtain st' where
    "load_lines fromstring st1 extra = Inr st'" "vectors st' = vectors st1"
      "embeddings_dimensionality st' = Some d" "logged st' = logged st1"
    by auto
  with st1 show ?case by simp
qed

lemma header_two_lines:
  assumes h: "split_first_blank (strip h) = [hw, hv]" "fromstring hv = Some hx" "length hx < 4"
    and l1: "split_first_blank (strip l1) = [w1, s1]" "fromstring s1 = Some x1" "length x1 = d"
    and l2: "split_first_blank (strip l2) = [w2, s2]" "fromstring s2 = Some x2" "length x2 = d"
    and d: "4 \<le> d" and ne: "w1 \<noteq> w2"
  shows "\<exists>st. load_lines fromstring initial_load_state [h, l1, l2] = Inr st
           \<and> vectors st = [w1 \<mapsto> x1, w2 \<mapsto> x2] \<and> embeddings_dimensionality st = Some d
           \<and> logged st = [Info ''Skipping header'']"
proof -
  have n: "strip h \<noteq> []" "strip l1 \<noteq> []" "strip l2 \<noteq> []"
    using h(1) l1(1) l2(1) by (auto simp: split_first_blank_def)
  show ?thesis
    using assms n
    by (auto simp: load_line_def Let_def store_vector_def initial_load_state_def)
qed

lemma vocab_index:
  assumes "map snd vocab = [0..<length vocab]" and "map_of vocab w = Some i"
  shows "i < length vocab \<and> vocab ! i = (w, i)"
proof -
  from map_of_SomeD[OF assms(2)] obtain j where j: "j < length vocab" "vocab ! j = (w, i)"
    by (auto simp: in_set_conv_nth)
  have "snd (vocab ! j) = map snd vocab ! j" using j(1) by simp
  also have "\<dots> = j" using j(1) by (simp add: assms(1))
  finally have "i = j" using j(2) by simp
  with j show ?thesis by simp
qed


text \<open>
  Claim C7. When the lines have been read and have established a dimensionality \<open>d\<close>,
  \<^verbatim>\<open>load_vectors\<close> returns a table: it has one row for every vocabulary entry, in the
  order of the vocabulary; every row has length \<open>d\<close>; and a word without a loaded vector
  gets the zero vector of length \<open>d\<close> and a warning in the log.
\<close>

theorem missing_vector_zero_and_warning:
  assumes "load_lines fromstring initial_load_state f = Inr st"
    and "embeddings_dimensionality st = Some d"
  shows "load_vectors fromstring vocab f
           = Inr (map (row_for d (vectors st)) (map fst vocab),
                  logged st @ warnings_for (vectors st) (map fst vocab)) \<and>
         (\<forall>w. length (row_for d (vectors st) w) = d) \<and>
         (\<forall>w \<in> fst ` set vocab. vectors st w = None \<longrightarrow>
            row_for d (vectors st) w = replicate d 0 \<and>
            Warning (''Could not load pretrained embedding for word: '' @ w)
              \<in> set (warnings_for (vectors st) (map fst vocab)))"
proof -
  have "vectors_have_length st"
    using load_lines_inv[OF assms(1) initial_inv] .
  then have len: "\<forall>w v. vectors st w = Some v \<longrightarrow> length v = d"
    using assms(2) by (simp add: vectors_have_length_def)
  have a: "\<forall>w. length (row_for d (vectors st) w) = d"
    using len by (auto simp: row_for_def split: option.splits)
  have b: "\<forall>w \<in> fst ` set vocab. vectors st w = None \<longrightarrow>
            row_for d (vectors st) w = replicate d 0 \<and>
            Warning (''Could not load pretrained embedding for word: '' @ w)
              \<in> set (warnings_for (vectors st) (map fst vocab))"
    by (auto simp: row_for_def warnings_for_def)
  show ?thesis
    using load_vectors_rows[OF assms] a b by blast
qed

theorem missing_vector_zero_and_warning_witness:
  "load_lines decimal_fromstring initial_load_state
     [''2 4'' @ [newline], ''a 1 2 3 4'' @ [newline]]
     = Inr \<lparr>words_transformed = {''a''}, repetitions = 0, embeddings_dimensionality = Some 4,
            vectors = [''a'' \<mapsto> [1, 2, 3, 4]], logged = [Info ''Skipping header'']\<rparr> \<and>
   load_vectors decimal_fromstring [(''a'', 0), (''[UNK]'', 1)]
     [''2 4'' @ [newline], ''a 1 2 3 4'' @ [newline]]
     = Inr ([[1, 2, 3, 4], [0, 0, 0, 0]],
            [Info ''Skipping header'',
             Warning ''Could not load pretrained embedding for word: [UNK]''])"
proof -
  have h: "load_lines decimal_fromstring initial_load_state
     [''2 4'' @ [newline], ''a 1 2 3 4'' @ [newline]]
     = Inr \<lparr>words_transformed = {''a''}, repetitions = 0, embeddings_dimensionality = Some 4,
            vectors = [''a'' \<mapsto> [1, 2, 3, 4]], logged = [Info ''Skipping header'']\<rparr>"
    by (simp add: load_line_def initial_load_state_def strip_def isspace_def newline_def
        split_first_blank_def decimal_fromstring_def digit_of_def store_vector_def)
  show ?thesis
    using h missing_vector_zero_and_warning [OF h, of 4 "[(''a'', 0), (''[UNK]'', 1)]"]
    by (simp add: row_for_def warnings_for_def numeral_eq_Suc)
qed

text \<open>
  Claim C6, as stated, fails: a line with three values, read before any dimensionality is
  set, is taken for a header, so a table of three-dimensional vectors sets no
  dimensionality and \<^verbatim>\<open>torch.zeros\<close> raises.
\<close>

theorem three_dimensional_table_counterexample:
  "load_vectors decimal_fromstring [(''a'', 0), (''b'', 1)]
     [''2 3'' @ [newline], ''a 1 2 3'' @ [newline], ''b 4 5 6'' @ [newline]]
   = Inl (TypeError ''zeros(): argument size must be tuple of ints'')"
  by (simp add: load_vectors_def load_line_def initial_load_state_def strip_def isspace_def
      newline_def split_first_blank_def decimal_fromstring_def digit_of_def bind_def
      store_vector_def)

text \<open>
  Claim C6, amended. For a table of one header line (fewer than four values), two lines
  with distinct words and vectors of one length \<open>d\<close> of at least four, and then any
  lines whose vectors have another length, and a vocabulary that numbers its entries in
  order and contains the two words: the table of embeddings has one row per vocabulary
  entry, the rows at the indices of the two words are their vectors, and every other row
  is the zero vector.
\<close>

theorem four_dimensional_table:
  assumes h: "split_first_blank (strip h) = [hw, hv]" "fromstring hv = Some hx" "length hx < 4"
    and l1: "split_first_blank (strip l1) = [w1, s1]" "fromstring s1 = Some x1" "length x1 = d"
    and l2: "split_first_blank (strip l2) = [w2, s2]" "fromstring s2 = Some x2" "length x2 = d"
    and d: "4 \<le> d" and ne: "w1 \<noteq> w2"
    and extra: "\<forall>l \<in> set extra. \<exists>w s x. split_first_blank (strip l) = [w, s]
                  \<and> fromstring s = Some x \<and> length x \<noteq> d"
    and vocab: "map snd vocab = [0..<length vocab]" "distinct (map fst vocab)"
      "map_of vocab w1 = Some i1" "map_of vocab w2 = Some i2"
  shows "\<exists>emb lg. load_vectors fromstring vocab ([h, l1, l2] @ extra) = Inr (emb, lg)
           \<and> length emb = length vocab \<and> emb ! i1 = x1 \<and> emb ! i2 = x2
           \<and> (\<forall>i < length vocab. i \<noteq> i1 \<and> i \<noteq> i2 \<longrightarrow> emb ! i = replicate d 0)"
proof -
  from header_two_lines[OF h l1 l2 d ne] obtain st0 where
    st0: "load_lines fromstring initial_load_state [h, l1, l2] = Inr st0"
      "vectors st0 = [w1 \<mapsto> x1, w2 \<mapsto> x2]" "embeddings_dimensionality st0 = Some d"
    by blast
  from load_lines_mismatch[OF extra st0(3)] obtain st where
    st: "load_lines fromstring st0 extra = Inr st" "vectors st = vectors st0"
      "embeddings_dimensionality st = Some d"
    by blast
  have all: "load_lines fromstring initial_load_state ([h, l1, l2] @ extra) = Inr st"
    unfolding load_lines_append st0(1) using st(1) by simp
  let ?emb = "map (row_for d (vectors st)) (map fst vocab)"
  have res: "load_vectors fromstring vocab ([h, l1, l2] @ extra)
           = Inr (?emb, logged st @ warnings_for (vectors st) (map fst vocab))"
    by (rule load_vectors_rows[OF all st(3)])
  have i1: "i1 < length vocab" "vocab ! i1 = (w1, i1)"
    using vocab_index[OF vocab(1) vocab(3)] by auto
  have i2: "i2 < length vocab" "vocab ! i2 = (w2, i2)"
    using vocab_index[OF vocab(1) vocab(4)] by auto
  have v: "vectors st = [w1 \<mapsto> x1, w2 \<mapsto> x2]"
    using st(2) st0(2) by simp
  have e1: "?emb ! i1 = x1"
    using i1 ne by (simp add: row_for_def v)
  have e2: "?emb ! i2 = x2"
    using i2 by (simp add: row_for_def v)
  have e3: "?emb ! i = replicate d 0" if "i < length vocab" "i \<noteq> i1" "i \<noteq> i2" for i
  proof -
    have "map fst vocab ! i \<noteq> map fst vocab ! i1" "map fst vocab ! i \<noteq> map fst vocab ! i2"
      using that i1(1) i2(1) nth_eq_iff_index_eq[OF vocab(2), of i i1]
        nth_eq_iff_index_eq[OF vocab(2), of i i2] by (simp_all del: nth_map)
    then have "fst (vocab ! i) \<noteq> w1" "fst (vocab ! i) \<noteq> w2"
      using that(1) i1 i2 by auto
    then show ?thesis
      using that(1) by (simp add: row_for_def v)
  qed
  show ?thesis
    using res e1 e2 e3 by auto
qed


theorem four_dimensional_table_witness:
  "load_vectors decimal_fromstring [(''a'', 0), (''[UNK]'', 1), (''b'', 2)]
     ([''2 4'' @ [newline], ''b 4 5 6 7'' @ [newline], ''a 1 2 3 4'' @ [newline]]
        @ [''c 1 2 3 4 5'' @ [newline]])
   = Inr ([[1, 2, 3, 4], [0, 0, 0, 0], [4, 5, 6, 7]],
          [Info ''Skipping header'',
           Warning ''Could not load pretrained embedding for word: [UNK]''])"
proof -
  have "\<exists>emb lg. load_vectors decimal_fromstring [(''a'', 0), (''[UNK]'', 1), (''b'', 2)]
           ([''2 4'' @ [newline], ''b 4 5 6 7'' @ [newline], ''a 1 2 3 4'' @ [newline]]
              @ [''c 1 2 3 4 5'' @ [newline]]) = Inr (emb, lg)
         \<and> length emb = length [(''a'', 0::nat), (''[UNK]'', 1), (''b'', 2)]
         \<and> emb ! 2 = [4, 5, 6, 7] \<and> emb ! 0 = [1, 2, 3, 4]
         \<and> (\<forall>i < length [(''a'', 0::nat), (''[UNK]'', 1), (''b'', 2)].
               i \<noteq> 2 \<and> i \<noteq> 0 \<longrightarrow> emb ! i = replicate 4 0)"
    by (rule four_dimensional_table
          [of "''2 4'' @ [newline]" "''2''" "''4''" decimal_fromstring "[4]"
              "''b 4 5 6 7'' @ [newline]" "''b''" "''4 5 6 7''" "[4, 5, 6, 7]" 4
              "''a 1 2 3 4'' @ [newline]" "''a''" "''1 2 3 4''" "[1, 2, 3, 4]"
              "[''c 1 2 3 4 5'' @ [newline]]" "[(''a'', 0), (''[UNK]'', 1), (''b'', 2)]" 2 0])
       (simp_all add: strip_def isspace_def newline_def decimal_fromstring_def digit_of_def
          split_first_blank_def upt_rec)
  then show ?thesis
    by (simp add: load_vectors_def load_line_def initial_load_state_def strip_def isspace_def
        newline_def decimal_fromstring_def digit_of_def split_first_blank_def bind_def
        store_vector_def enumerate_keys_def upt_rec)
qed

text \<open>
  Claim C8, as stated, fails: the vectors are loaded before the vocabulary is checked, so
  with a table that sets no dimensionality the construction raises \<^verbatim>\<open>TypeError\<close>, with
  the marker in the vocabulary and without it.
\<close>

theorem unk_marker_counterexample:
  "load_vocab [''d/vocab.txt'' \<mapsto> (TextFile [''[UNK]'' @ [newline], ''a'' @ [newline]] :: unit file_content),
               ''d/vectors.txt'' \<mapsto> TextFile [''a 1 2 3'' @ [newline]]] ''d/vocab.txt''
     = Inr [(''[UNK]'', 0), (''a'', 1)] \<and>
   EmbeddingModel_init decimal_fromstring
     [''d/vocab.txt'' \<mapsto> (TextFile [''[UNK]'' @ [newline], ''a'' @ [newline]] :: unit file_content),
      ''d/vectors.txt'' \<mapsto> TextFile [''a 1 2 3'' @ [newline]]]
     ''d/vectors.txt'' Map.empty ''d/vocab.txt''
     = Inl (TypeError ''zeros(): argument size must be tuple of ints'') \<and>
   load_vocab [''d/vocab.txt'' \<mapsto> (TextFile [''a'' @ [newline]] :: unit file_content),
               ''d/vectors.txt'' \<mapsto> TextFile [''a 1 2 3'' @ [newline]]] ''d/vocab.txt''
     = Inr [(''a'', 0)] \<and>
   EmbeddingModel_init decimal_fromstring
     [''d/vocab.txt'' \<mapsto> (TextFile [''a'' @ [newline]] :: unit file_content),
      ''d/vectors.txt'' \<mapsto> TextFile [''a 1 2 3'' @ [newline]]]
     ''d/vectors.txt'' Map.empty ''d/vocab.txt''
     = Inl (TypeError ''zeros(): argument size must be tuple of ints'')"
  by (simp add: EmbeddingModel_init_def load_vocab_def readlines_def rstrip_newline_def
      load_vectors_def load_line_def initial_load_state_def strip_def isspace_def
      newline_def split_first_blank_def decimal_fromstring_def digit_of_def bind_def
      store_vector_def upt_rec)

text \<open>
  Claim C8, amended. A vocabulary without \<^verbatim>\<open>[UNK]\<close> never yields a model. When the
  vocabulary and the table of vectors load, a vocabulary without the marker raises the
  assertion, and one with the marker yields a model whose \<^verbatim>\<open>unk_idx\<close> is the marker's
  index in the vocabulary.
\<close>

theorem unk_marker_checked_after_loading:
  "(load_vocab fs vocab_filename = Inr vocab \<and> map_of vocab ''[UNK]'' = None \<longrightarrow>
      (\<forall>r. EmbeddingModel_init fromstring fs path config vocab_filename \<noteq> Inr r)) \<and>
   (load_vocab fs vocab_filename = Inr vocab \<and> readlines fs path = Inr f \<and>
    load_vectors fromstring vocab f = Inr (embeddings, lg) \<longrightarrow>
      (map_of vocab ''[UNK]'' = None \<longrightarrow>
         EmbeddingModel_init fromstring fs path config vocab_filename
           = Inl (AssertionError ''No [UNK] symbol in Wordembeddingmodel! Aborting'')) \<and>
      (\<forall>i. map_of vocab ''[UNK]'' = Some i \<longrightarrow>
         EmbeddingModel_init fromstring fs path config vocab_filename
           = Inr (\<lparr>em_config = EmbeddingConfig config, em_vocab = vocab,
                   em_embeddings = embeddings, unk_idx = i\<rparr>, lg)))"
  by (auto simp: EmbeddingModel_init_def bind_def split: sum.splits option.splits)

theorem unk_marker_checked_after_loading_witness:
  "EmbeddingModel_init decimal_fromstring
     [''d/vocab.txt'' \<mapsto> (TextFile [''a'' @ [newline], ''[UNK]'' @ [newline]] :: unit file_content),
      ''d/vectors.txt'' \<mapsto> TextFile [''a 1 2 3 4'' @ [newline]]]
     ''d/vectors.txt'' Map.empty ''d/vocab.txt''
     = Inr (\<lparr>em_config = EmbeddingConfig Map.empty, em_vocab = [(''a'', 0), (''[UNK]'', 1)],
             em_embeddings = [[1, 2, 3, 4], [0, 0, 0, 0]], unk_idx = 1\<rparr>,
            [Warning ''Could not load pretrained embedding for word: [UNK]'']) \<and>
   EmbeddingModel_init decimal_fromstring
     [''d/vocab.txt'' \<mapsto> (TextFile [''a'' @ [newline]] :: unit file_content),
      ''d/vectors.txt'' \<mapsto> TextFile [''a 1 2 3 4'' @ [newline]]]
     ''d/vectors.txt'' Map.empty ''d/vocab.txt''
     = Inl (AssertionError ''No [UNK] symbol in Wordembeddingmodel! Aborting'')"
proof -
  have v: "load_vocab [''d/vocab.txt'' \<mapsto> (TextFile [''a'' @ [newline], ''[UNK]'' @ [newline]] :: unit file_content),
      ''d/vectors.txt'' \<mapsto> TextFile [''a 1 2 3 4'' @ [newline]]] ''d/vocab.txt'' = Inr [(''a'', 0), (''[UNK]'', 1)]"
    by (simp add: load_vocab_def readlines_def rstrip_newline_def newline_def bind_def upt_rec)
  have r: "readlines [''d/vocab.txt'' \<mapsto> (TextFile [''a'' @ [newline], ''[UNK]'' @ [newline]] :: unit file_content),
      ''d/vectors.txt'' \<mapsto> TextFile [''a 1 2 3 4'' @ [newline]]] ''d/vectors.txt'' = Inr [''a 1 2 3 4'' @ [newline]]"
    by (simp add: readlines_def)
  have l: "load_vectors decimal_fromstring [(''a'', 0), (''[UNK]'', 1)] [''a 1 2 3 4'' @ [newline]]
     = Inr ([[1, 2, 3, 4], [0, 0, 0, 0]],
            [Warning ''Could not load pretrained embedding for word: [UNK]''])"
    by (simp add: load_vectors_def load_line_def initial_load_state_def strip_def isspace_def
        newline_def decimal_fromstring_def digit_of_def split_first_blank_def bind_def
        store_vector_def enumerate_keys_def upt_rec)
  have v2: "load_vocab [''d/vocab.txt'' \<mapsto> (TextFile [''a'' @ [newline]] :: unit file_content),
      ''d/vectors.txt'' \<mapsto> TextFile [''a 1 2 3 4'' @ [newline]]] ''d/vocab.txt'' = Inr [(''a'', 0)]"
    by (simp add: load_vocab_def readlines_def rstrip_newline_def newline_def bind_def upt_rec)
  have r2: "readlines [''d/vocab.txt'' \<mapsto> (TextFile [''a'' @ [newline]] :: unit file_content),
      ''d/vectors.txt'' \<mapsto> TextFile [''a 1 2 3 4'' @ [newline]]] ''d/vectors.txt'' = Inr [''a 1 2 3 4'' @ [newline]]"
    by (simp add: readlines_def)
  have l2: "load_vectors decimal_fromstring [(''a'', 0)] [''a 1 2 3 4'' @ [newline]]
     = Inr ([[1, 2, 3, 4]], [])"
    by (simp add: load_vectors_def load_line_def initial_load_state_def strip_def isspace_def
        newline_def decimal_fromstring_def digit_of_def split_first_blank_def bind_def
        store_vector_def enumerate_keys_def upt_rec)
  show ?thesis
    using unk_marker_checked_after_loading
            [of "[''d/vocab.txt'' \<mapsto> (TextFile [''a'' @ [newline], ''[UNK]'' @ [newline]] :: unit file_content),
      ''d/vectors.txt'' \<mapsto> TextFile [''a 1 2 3 4'' @ [newline]]]" "''d/vocab.txt''" "[(''a'', 0), (''[UNK]'', 1)]"
                decimal_fromstring "''d/vectors.txt''" Map.empty "[''a 1 2 3 4'' @ [newline]]"
                "[[1, 2, 3, 4], [0, 0, 0, 0]]"
                "[Warning ''Could not load pretrained embedding for word: [UNK]'']"]
          unk_marker_checked_after_loading
            [of "[''d/vocab.txt'' \<mapsto> (TextFile [''a'' @ [newline]] :: unit file_content),
      ''d/vectors.txt'' \<mapsto> TextFile [''a 1 2 3 4'' @ [newline]]]" "''d/vocab.txt''" "[(''a'', 0)]"
                decimal_fromstring "''d/vectors.txt''" Map.empty "[''a 1 2 3 4'' @ [newline]]"
                "[[1, 2, 3, 4]]" "[]"]
          v r l v2 r2 l2
    by simp
qed

section \<open>Properties of the generic loader\<close>

lemma infer_is_first_match:
  "infer_language_model_class p = first_match precedence p"
  by (simp add: infer_language_model_class_def precedence_def)

lemma subclasses_class_name: "subclasses (class_name c) = Some c"
  by (cases c) (simp_all add: subclasses_def)

lemma class_name_inj: "class_name c = class_name c' \<Longrightarrow> c = c'"
  by (cases c; cases c') simp_all

lemma infer_names_class:
  assumes "names_supported_family p"
  shows "\<exists>c. infer_language_model_class p = Some (class_name c)"
proof -
  consider (xr) "sublist ''xlm'' p \<and> sublist ''roberta'' p"
    | (r) "\<not> sublist ''xlm'' p" "sublist ''roberta'' p"
    | (a) "\<not> sublist ''roberta'' p" "sublist ''albert'' p"
    | (d) "\<not> sublist ''roberta'' p" "\<not> sublist ''albert'' p" "sublist ''distilbert'' p"
    | (b) "\<not> sublist ''roberta'' p" "\<not> sublist ''albert'' p" "\<not> sublist ''distilbert'' p"
        "sublist ''bert'' p"
    | (x) "\<not> sublist ''roberta'' p" "\<not> sublist ''albert'' p" "\<not> sublist ''distilbert'' p"
        "\<not> sublist ''bert'' p" "sublist ''xlnet'' p"
    | (w) "\<not> sublist ''roberta'' p" "\<not> sublist ''albert'' p" "\<not> sublist ''distilbert'' p"
        "\<not> sublist ''bert'' p" "\<not> sublist ''xlnet'' p"
        "sublist ''word2vec'' (lower p) \<or> sublist ''glove'' (lower p)"
    using assms unfolding names_supported_family_def by blast
  then show ?thesis
  proof cases
    case xr then show ?thesis
      by (intro exI[of _ XLMRoberta]) (simp add: infer_language_model_class_def)
  next
    case r then show ?thesis
      by (intro exI[of _ Roberta]) (simp add: infer_language_model_class_def)
  next
    case a then show ?thesis
      by (intro exI[of _ Albert]) (simp add: infer_language_model_class_def)
  next
    case d then show ?thesis
      by (intro exI[of _ DistilBert]) (simp add: infer_language_model_class_def)
  next
    case b then show ?thesis
      by (intro exI[of _ Bert]) (simp add: infer_language_model_class_def)
  next
    case x then show ?thesis
      by (intro exI[of _ XLNet]) (simp add: infer_language_model_class_def)
  next
    case w then show ?thesis
      by (intro exI[of _ WordEmbedding_LM]) (simp add: infer_language_model_class_def)
  qed
qed

lemma load_by_name:
  assumes "fs (path_join p ''language_model_config.json'') = None"
    and "infer_language_model_class p = Some (class_name c)"
  shows "LanguageModel_load lib fs p n None kw =
           bind (adapter_load c lib fs p kw) (\<lambda>language_model.
             if (if c = XLMRoberta then 3 else n) \<noteq> 0
             then resize_for_added_tokens lib language_model (if c = XLMRoberta then 3 else n)
             else Inr language_model)"
proof -
  have x: "(class_name c = ''XLMRoberta'') = (c = XLMRoberta)"
    by (cases c) simp_all
  show ?thesis
    using assms
    by (cases "adapter_load c lib fs p kw")
       (simp_all add: LanguageModel_load_def Let_def subclasses_lookup_def subclasses_class_name
          bind_simps truthy_def x)
qed

lemma no_family_key_error:
  assumes "fs (path_join p ''language_model_config.json'') = None"
    and "\<not> names_supported_family p"
  shows "LanguageModel_load lib fs p n None kw = Inl (KeyError None)"
proof -
  have "infer_language_model_class p = None"
    using assms(2) by (auto simp: infer_language_model_class_def names_supported_family_def)
  then show ?thesis
    using assms(1)
    by (simp add: LanguageModel_load_def Let_def subclasses_lookup_def bind_simps)
qed

text \<open>
  Claim C1. For an identifier that names no saved configuration file and contains a
  supported family name, the generic loader called without \<^verbatim>\<open>language_model_class\<close>
  resolves to exactly one adapter class and continues with the loader of that class. The
  class is the one of the first rule of the precedence list whose test holds. In
  particular \<^verbatim>\<open>xlm\<close> with \<^verbatim>\<open>roberta\<close> gives \<^verbatim>\<open>XLMRoberta\<close>; an identifier with
  \<^verbatim>\<open>distilbert\<close> never gives \<^verbatim>\<open>Bert\<close>, and gives \<^verbatim>\<open>DistilBert\<close> unless a rule of higher
  precedence (\<^verbatim>\<open>roberta\<close>, \<^verbatim>\<open>albert\<close>) applies; an identifier with \<^verbatim>\<open>albert\<close> never gives
  \<^verbatim>\<open>Bert\<close>, and gives \<^verbatim>\<open>Albert\<close> unless \<^verbatim>\<open>roberta\<close> applies.
\<close>

theorem dispatch_first_match:
  assumes "fs (path_join p ''language_model_config.json'') = None"
    and "names_supported_family p"
  shows "(\<exists>!c. infer_language_model_class p = Some (class_name c) \<and>
            LanguageModel_load lib fs p n None kw =
              bind (adapter_load c lib fs p kw) (\<lambda>language_model.
                if (if c = XLMRoberta then 3 else n) \<noteq> 0
                then resize_for_added_tokens lib language_model (if c = XLMRoberta then 3 else n)
                else Inr language_model)) \<and>
         infer_language_model_class p = first_match precedence p \<and>
         (sublist ''xlm'' p \<and> sublist ''roberta'' p \<longrightarrow>
            infer_language_model_class p = Some ''XLMRoberta'') \<and>
         (sublist ''distilbert'' p \<longrightarrow>
            infer_language_model_class p \<noteq> Some ''Bert'' \<and>
            (\<not> sublist ''roberta'' p \<and> \<not> sublist ''albert'' p \<longrightarrow>
               infer_language_model_class p = Some ''DistilBert'')) \<and>
         (sublist ''albert'' p \<longrightarrow>
            infer_language_model_class p \<noteq> Some ''Bert'' \<and>
            (\<not> sublist ''roberta'' p \<longrightarrow> infer_language_model_class p = Some ''Albert''))"
proof -
  from infer_names_class[OF assms(2)] obtain c where
    c: "infer_language_model_class p = Some (class_name c)" by blast
  have a: "\<exists>!c. infer_language_model_class p = Some (class_name c) \<and>
            LanguageModel_load lib fs p n None kw =
              bind (adapter_load c lib fs p kw) (\<lambda>language_model.
                if (if c = XLMRoberta then 3 else n) \<noteq> 0
                then resize_for_added_tokens lib language_model (if c = XLMRoberta then 3 else n)
                else Inr language_model)"
  proof (rule ex1I[of _ c])
    show "infer_language_model_class p = Some (class_name c) \<and>
            LanguageModel_load lib fs p n None kw =
              bind (adapter_load c lib fs p kw) (\<lambda>language_model.
                if (if c = XLMRoberta then 3 else n) \<noteq> 0
                then resize_for_added_tokens lib language_model (if c = XLMRoberta then 3 else n)
                else Inr language_model)"
      using c load_by_name[of fs p c lib n kw, OF assms(1) c] by simp
  next
    fix c' assume "infer_language_model_class p = Some (class_name c') \<and>
            LanguageModel_load lib fs p n None kw =
              bind (adapter_load c' lib fs p kw) (\<lambda>language_model.
                if (if c' = XLMRoberta then 3 else n) \<noteq> 0
                then resize_for_added_tokens lib language_model (if c' = XLMRoberta then 3 else n)
                else Inr language_model)"
    then show "c' = c" using c class_name_inj by simp
  qed
  have b: "sublist ''xlm'' p \<and> sublist ''roberta'' p \<longrightarrow>
            infer_language_model_class p = Some ''XLMRoberta''"
    by (simp add: infer_language_model_class_def)
  have d: "sublist ''distilbert'' p \<longrightarrow>
            infer_language_model_class p \<noteq> Some ''Bert'' \<and>
            (\<not> sublist ''roberta'' p \<and> \<not> sublist ''albert'' p \<longrightarrow>
               infer_language_model_class p = Some ''DistilBert'')"
    by (simp add: infer_language_model_class_def)
  have e: "sublist ''albert'' p \<longrightarrow>
            infer_language_model_class p \<noteq> Some ''Bert'' \<and>
            (\<not> sublist ''roberta'' p \<longrightarrow> infer_language_model_class p = Some ''Albert'')"
    by (simp add: infer_language_model_class_def)
  show ?thesis
    using a b d e infer_is_first_match by blast
qed

theorem dispatch_first_match_witness:
  "\<forall>fmt.
     (Map.empty :: nat filesystem)
       (path_join ''distilbert-base-german-cased'' ''language_model_config.json'') = None \<and>
     names_supported_family ''distilbert-base-german-cased'' \<and>
     infer_language_model_class ''distilbert-base-german-cased'' = Some (class_name DistilBert) \<and>
     infer_language_model_class ''xlm-roberta-base'' = Some (class_name XLMRoberta) \<and>
     infer_language_model_class ''albert-base-v2'' = Some (class_name Albert) \<and>
     LanguageModel_load (example_library fmt) Map.empty ''distilbert-base-german-cased'' 0 None
         no_kwargs
       = Inr \<lparr>lm_class = DistilBert, lm_name = ''distilbert-base-german-cased'',
              lm_language = JStr ''german'',
              lm_model = TransformersModel
                \<lparr>tm_config = [''vocab_size'' \<mapsto> JInt 30000, ''summary_last_dropout'' \<mapsto> JInt 0,
                              ''summary_type'' \<mapsto> JStr ''first'',
                              ''summary_activation'' \<mapsto> JStr ''tanh''],
                 tm_weights = 30000\<rparr>\<rparr>"
proof -
  have i: "infer_language_model_class ''distilbert-base-german-cased'' = Some ''DistilBert''"
    "infer_language_model_class ''xlm-roberta-base'' = Some ''XLMRoberta''"
    "infer_language_model_class ''albert-base-v2'' = Some ''Albert''"
    by code_simp+
  have s: "names_supported_family ''distilbert-base-german-cased''"
    by code_simp
  have l: "infer_language_from_name ''distilbert-base-german-cased'' = Inr ''german''"
    by code_simp
  have a: "adapter_load DistilBert (example_library fmt) Map.empty
             ''distilbert-base-german-cased'' no_kwargs
       = Inr \<lparr>lm_class = DistilBert, lm_name = ''distilbert-base-german-cased'',
              lm_language = JStr ''german'',
              lm_model = TransformersModel
                \<lparr>tm_config = [''vocab_size'' \<mapsto> JInt 30000, ''summary_last_dropout'' \<mapsto> JInt 0,
                              ''summary_type'' \<mapsto> JStr ''first'',
                              ''summary_activation'' \<mapsto> JStr ''tanh''],
                 tm_weights = 30000\<rparr>\<rparr>" for fmt
    by (simp add: DistilBert_load_def transformers_load_def example_library_def no_kwargs_def
        path_join_def bind_simps get_or_infer_language_from_name_def l set_model_config_def
        model_config_def)
  have e: "(Map.empty :: nat filesystem)
       (path_join ''distilbert-base-german-cased'' ''language_model_config.json'') = None"
    by simp
  have r: "LanguageModel_load (example_library fmt) Map.empty ''distilbert-base-german-cased'' 0
             None no_kwargs
       = adapter_load DistilBert (example_library fmt) Map.empty
           ''distilbert-base-german-cased'' no_kwargs" for fmt
  proof -
    from dispatch_first_match
           [of "Map.empty :: nat filesystem" "''distilbert-base-german-cased''"
               "example_library fmt" 0 no_kwargs, OF e s]
    obtain c where c: "infer_language_model_class ''distilbert-base-german-cased''
                         = Some (class_name c)"
      "LanguageModel_load (example_library fmt) Map.empty ''distilbert-base-german-cased'' 0
         None no_kwargs
       = bind (adapter_load c (example_library fmt) Map.empty
                 ''distilbert-base-german-cased'' no_kwargs)
           (\<lambda>language_model.
              if (if c = XLMRoberta then 3 else 0) \<noteq> (0::int)
              then resize_for_added_tokens (example_library fmt) language_model
                     (if c = XLMRoberta then 3 else 0)
              else Inr language_model)"
      by blast
    have "class_name c = class_name DistilBert"
      using c(1) i(1) by simp
    then have "c = DistilBert"
      by (rule class_name_inj)
    then show ?thesis
      using c(2) by (simp add: a bind_simps del: adapter_load.simps)
  qed
  show ?thesis
    using e i s r a by simp
qed

text \<open>
  Claim C2 is not met by the code. For an identifier that names no saved configuration
  file and contains no supported family name, \<^verbatim>\<open>language_model_class\<close> stays \<^verbatim>\<open>None\<close> and
  the lookup \<^verbatim>\<open>cls.subclasses[None]\<close> raises \<^verbatim>\<open>KeyError\<close>, before the statement that raises
  the exception with the message about the supported models is reached. Here at the
  identifier \<^verbatim>\<open>my-model\<close>, for every library.
\<close>

theorem no_family_raises_key_error: "\<forall>lib n kw. LanguageModel_load lib Map.empty ''my-model'' n None kw = Inl (KeyError None) \<and>
   LanguageModel_load lib Map.empty ''my-model'' n None kw \<noteq> Inl (Exception (model_not_found ''my-model''))"
proof -
  have "\<not> names_supported_family ''my-model''"
    by code_simp
  then have "LanguageModel_load lib Map.empty ''my-model'' n None kw = Inl (KeyError None)"
    for lib :: "'a library" and n kw
    by (intro no_family_key_error) simp_all
  then show ?thesis by simp
qed

section \<open>Properties of saving and loading\<close>

lemma saved_paths_differ:
  "path_join d ''language_model_config.json'' \<noteq> path_join d ''language_model.bin''"
  by (simp add: path_join_def)

lemma transformers_load_saved:
  assumes fs: "fs (path_join d ''language_model_config.json'') = Some (JsonFile json)"
      "fs (path_join d ''language_model.bin'') = Some (WeightsFile w)"
    and lang: "json ''language'' = Some l"
    and lib: "load_state_dict lib cls (config_defaults lib ccls ++ json) w = Inr w'"
  shows "transformers_load lib fs cls ccls d no_kwargs =
           Inr \<lparr>lm_class = cls, lm_name = d, lm_language = l,
                lm_model = TransformersModel
                  \<lparr>tm_config = config_defaults lib ccls ++ json, tm_weights = w'\<rparr>\<rparr>"
  using assms
  by (simp add: transformers_load_def Let_def json_load_def read_weights_def bind_simps
      no_kwargs_def map_add_def)

lemma adapter_load_saved:
  assumes fs: "fs (path_join d ''language_model_config.json'') = Some (JsonFile json)"
      "fs (path_join d ''language_model.bin'') = Some (WeightsFile w)"
    and lang: "json ''language'' = Some l" and vs: "json ''vocab_size'' = Some v"
    and lib: "load_state_dict lib cls (config_defaults lib (config_class_of cls) ++ json) w = Inr w'"
    and cls: "cls \<noteq> WordEmbedding_LM"
  shows "\<exists>lm. adapter_load cls lib fs d no_kwargs = Inr lm \<and> lm_class lm = cls \<and>
           lm_language lm = l \<and> model_config lm ''vocab_size'' = Some v"
proof -
  have t: "transformers_load lib fs cls (config_class_of cls) d no_kwargs =
           Inr \<lparr>lm_class = cls, lm_name = d, lm_language = l,
                lm_model = TransformersModel
                  \<lparr>tm_config = config_defaults lib (config_class_of cls) ++ json, tm_weights = w'\<rparr>\<rparr>"
    by (rule transformers_load_saved[OF fs lang lib])
  have v: "(config_defaults lib (config_class_of cls) ++ json) ''vocab_size'' = Some v"
    using vs by (simp add: map_add_def)
  show ?thesis
    using cls t v
    by (cases cls)
       (simp_all add: Bert_load_def Albert_load_def Roberta_load_def XLMRoberta_load_def
          DistilBert_load_def XLNet_load_def bind_simps model_config_def set_model_config_def)
qed

text \<open>
  Claim C9 is not met by the code for \<^verbatim>\<open>WordEmbedding_LM\<close>. Its \<^verbatim>\<open>save\<close>, whose docstring
  says that it saves the model "so that it can be loaded again", writes the table of
  embeddings and the configuration; its loader also reads the vocabulary file named in
  the configuration, which \<^verbatim>\<open>save\<close> does not write. Here a model loaded from the directory
  \<^verbatim>\<open>in\<close> is saved to the directory \<^verbatim>\<open>out\<close>, and loading from \<^verbatim>\<open>out\<close> raises
  \<^verbatim>\<open>FileNotFoundError\<close>, for every formatting of the numbers.
\<close>

theorem word_embedding_save_not_reloadable:
  "\<forall>fmt. \<exists>lm.
     LanguageModel_load (example_library fmt)
       [''in/language_model_config.json'' \<mapsto>
          JsonFile [''name'' \<mapsto> JStr ''WordEmbedding_LM'',
                    ''embeddings_filename'' \<mapsto> JStr ''vectors.txt'',
                    ''vocab_filename'' \<mapsto> JStr ''vocab.txt'',
                    ''language'' \<mapsto> JStr ''german''],
        ''in/vocab.txt'' \<mapsto> TextFile [''[UNK]'' @ [newline], ''a'' @ [newline]],
        ''in/vectors.txt'' \<mapsto> TextFile [''a 1 2 3 4'' @ [newline]]]
       ''in'' 0 None no_kwargs = Inr lm \<and>
     lm_class lm = WordEmbedding_LM \<and>
     save_then_load (example_library fmt) lm ''out''
       [''in/language_model_config.json'' \<mapsto>
          JsonFile [''name'' \<mapsto> JStr ''WordEmbedding_LM'',
                    ''embeddings_filename'' \<mapsto> JStr ''vectors.txt'',
                    ''vocab_filename'' \<mapsto> JStr ''vocab.txt'',
                    ''language'' \<mapsto> JStr ''german''],
        ''in/vocab.txt'' \<mapsto> TextFile [''[UNK]'' @ [newline], ''a'' @ [newline]],
        ''in/vectors.txt'' \<mapsto> TextFile [''a 1 2 3 4'' @ [newline]]]
       = Inl (FileNotFoundError ''out/vocab.txt'')"
proof
  fix fmt
  let ?json = "[''name'' \<mapsto> JStr ''WordEmbedding_LM'',
                ''embeddings_filename'' \<mapsto> JStr ''vectors.txt'',
                ''vocab_filename'' \<mapsto> JStr ''vocab.txt'',
                ''language'' \<mapsto> JStr ''german'']"
  let ?fs = "[''in/language_model_config.json'' \<mapsto> JsonFile ?json,
        ''in/vocab.txt'' \<mapsto> TextFile [''[UNK]'' @ [newline], ''a'' @ [newline]],
        ''in/vectors.txt'' \<mapsto> (TextFile [''a 1 2 3 4'' @ [newline]] :: nat file_content)]"
  let ?lm = "\<lparr>lm_class = WordEmbedding_LM, lm_name = ''in'', lm_language = JStr ''german'',
              lm_model = Embeddings
                \<lparr>em_config = EmbeddingConfig ?json, em_vocab = [(''[UNK]'', 0), (''a'', 1)],
                 em_embeddings = [[0, 0, 0, 0], [1, 2, 3, 4]], unk_idx = 0\<rparr>\<rparr>
             :: nat language_model"
  have v: "load_vectors decimal_fromstring [(''[UNK]'', 0), (''a'', 1)] [''a 1 2 3 4'' @ [newline]]
     = Inr ([[0, 0, 0, 0], [1, 2, 3, 4]],
            [Warning ''Could not load pretrained embedding for word: [UNK]''])"
    by (simp add: load_vectors_def load_line_def initial_load_state_def strip_def isspace_def
        newline_def decimal_fromstring_def digit_of_def split_first_blank_def bind_def
        store_vector_def enumerate_keys_def upt_rec)
  have vo: "load_vocab ?fs ''in/vocab.txt'' = Inr [(''[UNK]'', 0), (''a'', 1)]"
    by (simp add: load_vocab_def readlines_def rstrip_newline_def newline_def bind_def upt_rec)
  have rl: "readlines ?fs ''in/vectors.txt'' = Inr [''a 1 2 3 4'' @ [newline]]"
    by (simp add: readlines_def)
  have em: "EmbeddingModel_init decimal_fromstring ?fs ''in/vectors.txt'' ?json ''in/vocab.txt''
     = Inr (\<lparr>em_config = EmbeddingConfig ?json, em_vocab = [(''[UNK]'', 0), (''a'', 1)],
              em_embeddings = [[0, 0, 0, 0], [1, 2, 3, 4]], unk_idx = 0\<rparr>,
            [Warning ''Could not load pretrained embedding for word: [UNK]''])"
    using vo rl v by (simp add: EmbeddingModel_init_def bind_simps)
  have wl: "WordEmbedding_LM_load (example_library fmt) ?fs ''in'' no_kwargs = Inr ?lm"
    using em
    by (simp add: WordEmbedding_LM_load_def example_library_def no_kwargs_def path_join_def
        json_load_def config_filename_def bind_simps)
  have ld: "LanguageModel_load (example_library fmt) ?fs ''in'' 0 None no_kwargs = Inr ?lm"
    using wl
    by (simp add: LanguageModel_load_def path_join_def json_load_def bind_simps
        subclasses_lookup_def subclasses_def truthy_def)
  have sv: "save_then_load (example_library fmt) ?lm ''out'' ?fs
              = Inl (FileNotFoundError ''out/vocab.txt'')"
    by (simp add: save_then_load_def save_def WordEmbedding_LM_save_def EmbeddingModel_save_def
        EmbeddingConfig_def save_config_def model_config_def set_model_config_def
        LanguageModel_load_def path_join_def json_load_def bind_simps subclasses_lookup_def
        subclasses_def WordEmbedding_LM_load_def example_library_def no_kwargs_def
        config_filename_def EmbeddingModel_init_def load_vocab_def readlines_def Let_def)
  show "\<exists>lm. LanguageModel_load (example_library fmt) ?fs ''in'' 0 None no_kwargs = Inr lm \<and>
     lm_class lm = WordEmbedding_LM \<and>
     save_then_load (example_library fmt) lm ''out'' ?fs = Inl (FileNotFoundError ''out/vocab.txt'')"
    using ld sv by (intro exI[of _ ?lm]) simp
qed


text \<open>
  The sibling path: \<^verbatim>\<open>LanguageModel.save\<close>, which the six transformer adapters inherit,
  writes every file that their loaders read. For a model of one of these classes, whose
  configuration has a vocabulary size: when the library reads the saved weights back into
  the class under the saved configuration, saving to a directory and loading from it with
  the generic loader yields a model of the same class, of the same language and of the
  same vocabulary size.
\<close>

lemma transformer_save_load_round_trip:
  assumes cls: "lm_class self \<noteq> WordEmbedding_LM"
    and tm: "lm_model self = TransformersModel tm"
    and vs: "tm_config tm ''vocab_size'' = Some v"
    and lib: "load_state_dict lib (lm_class self)
                (config_defaults lib (config_class_of (lm_class self)) ++
                   (tm_config tm)(''name'' \<mapsto> JStr (class_name (lm_class self)),
                                  ''language'' \<mapsto> lm_language self))
                (tm_weights tm) = Inr w'"
  shows "\<exists>lm. save_then_load lib self save_dir fs = Inr lm \<and>
           lm_class lm = lm_class self \<and> lm_language lm = lm_language self \<and>
           model_config lm ''vocab_size'' = Some v"
proof -
  let ?json = "(tm_config tm)(''name'' \<mapsto> JStr (class_name (lm_class self)),
                              ''language'' \<mapsto> lm_language self)"
  let ?fs = "fs(path_join save_dir ''language_model.bin'' \<mapsto> WeightsFile (tm_weights tm),
                path_join save_dir ''language_model_config.json'' \<mapsto> JsonFile ?json)"
  have sv: "save lib self save_dir fs = Inr (set_model_config self ?json, ?fs)"
    using cls tm
    by (simp add: save_def LanguageModel_save_def save_config_def Let_def model_config_def)
  have f1: "?fs (path_join save_dir ''language_model_config.json'') = Some (JsonFile ?json)"
    by simp
  have f2: "?fs (path_join save_dir ''language_model.bin'') = Some (WeightsFile (tm_weights tm))"
    using saved_paths_differ[of save_dir] by simp
  have l: "?json ''language'' = Some (lm_language self)" by simp
  have v: "?json ''vocab_size'' = Some v" using vs by simp
  from adapter_load_saved[OF f1 f2 l v lib cls] obtain lm where
    lm: "adapter_load (lm_class self) lib ?fs save_dir no_kwargs = Inr lm"
      "lm_class lm = lm_class self" "lm_language lm = lm_language self"
      "model_config lm ''vocab_size'' = Some v"
    by blast
  have n: "?json ''name'' = Some (JStr (class_name (lm_class self)))" by simp
  have "LanguageModel_load lib ?fs save_dir 0 None no_kwargs = Inr lm"
    unfolding LanguageModel_load_def Let_def
    using f1 n lm(1)
    by (simp add: json_load_def bind_simps subclasses_lookup_def subclasses_class_name truthy_def
           del: fun_upd_apply adapter_load.simps)
  then show ?thesis
    using lm sv by (simp add: save_then_load_def bind_simps)
qed


lemma transformer_save_load_round_trip_example:
  "\<forall>fmt. \<exists>lm.
     save_then_load (example_library fmt)
       \<lparr>lm_class = Bert, lm_name = ''bert-base-cased'', lm_language = JStr ''english'',
        lm_model = TransformersModel
          \<lparr>tm_config = [''vocab_size'' \<mapsto> JInt 30000], tm_weights = 30000\<rparr>\<rparr>
       ''out'' Map.empty = Inr lm \<and>
     lm_class lm = Bert \<and> lm_language lm = JStr ''english'' \<and>
     model_config lm ''vocab_size'' = Some (JInt 30000)"
proof
  fix fmt
  show "\<exists>lm.
     save_then_load (example_library fmt)
       \<lparr>lm_class = Bert, lm_name = ''bert-base-cased'', lm_language = JStr ''english'',
        lm_model = TransformersModel
          \<lparr>tm_config = [''vocab_size'' \<mapsto> JInt 30000], tm_weights = 30000\<rparr>\<rparr>
       ''out'' Map.empty = Inr lm \<and>
     lm_class lm = Bert \<and> lm_language lm = JStr ''english'' \<and>
     model_config lm ''vocab_size'' = Some (JInt 30000)"
    using transformer_save_load_round_trip [of "\<lparr>lm_class = Bert, lm_name = ''bert-base-cased'', lm_language = JStr ''english'',
                   lm_model = TransformersModel
                     \<lparr>tm_config = [''vocab_size'' \<mapsto> JInt 30000], tm_weights = 30000\<rparr>\<rparr>"
                 "\<lparr>tm_config = [''vocab_size'' \<mapsto> JInt 30000], tm_weights = 30000\<rparr>"
                 "JInt 30000" "example_library fmt" 30000 "''out''" Map.empty]
    by (simp add: example_library_def)
qed

end
